theory Spec2Isabelle
  imports Complex_Main "HOL-Library.AList"
begin

section \<open>JavaScript values and built-ins used by the services\<close>

text \<open>
  A thrown \<^verbatim>\<open>new Error(message)\<close> is the value \<open>Error message\<close>; a function that may throw
  returns \<open>error + 'a\<close> with \<open>Inl\<close> for the throw. Strings are byte strings: the model covers
  ASCII text, the whitespace class \<^verbatim>\<open>\s\<close> is its six ASCII members and \<^verbatim>\<open>toLowerCase\<close> maps
  \<^verbatim>\<open>A-Z\<close> only. JavaScript numbers are exact here: timestamps and positions are integers,
  scores are rationals (the constants 0.1, 0.3, ... are the decimal fractions).
\<close>

datatype error = Error string

fun message :: "error \<Rightarrow> string" where
  "message (Error m) = m"

definition isWhitespace :: "char \<Rightarrow> bool" where
  "isWhitespace c = (c \<in> set [CHR 0x20, CHR 0x09, CHR 0x0A, CHR 0x0B, CHR 0x0C, CHR 0x0D])"

definition toLowerChar :: "char \<Rightarrow> char" where
  "toLowerChar c =
     (let n = (of_char c :: nat) in if 65 \<le> n \<and> n \<le> 90 then char_of (n + 32) else c)"

definition toLowerCase :: "string \<Rightarrow> string" where
  "toLowerCase s = map toLowerChar s"

definition trim :: "string \<Rightarrow> string" where
  "trim s = rev (dropWhile isWhitespace (rev (dropWhile isWhitespace s)))"

text \<open>
  \<^verbatim>\<open>s.split(/\s+/)\<close>: the pieces between maximal runs of whitespace. A string that starts or
  ends with whitespace yields an empty first or last piece, and the empty string yields
  one empty piece. \<open>split_from cur s\<close> scans \<open>s\<close> with the current piece \<open>cur\<close> reversed.
\<close>

function split_from :: "string \<Rightarrow> string \<Rightarrow> string list" where
  "split_from cur [] = [rev cur]"
| "split_from cur (c # cs) =
     (if isWhitespace c then rev cur # split_from [] (dropWhile isWhitespace cs)
      else split_from (c # cur) cs)"
  by pat_completeness auto
termination
  by (relation "measure (\<lambda>(cur, s). length s)") (auto simp: le_imp_less_Suc length_dropWhile_le)

definition split_ws :: "string \<Rightarrow> string list" where
  "split_ws s = split_from [] s"

text \<open>\<^verbatim>\<open>s.includes(sub)\<close> and \<^verbatim>\<open>s.startsWith(sub)\<close>.\<close>

fun startsWith :: "string \<Rightarrow> string \<Rightarrow> bool" where
  "startsWith s [] = True"
| "startsWith [] (b # bs) = False"
| "startsWith (a # as) (b # bs) = (a = b \<and> startsWith as bs)"

fun str_includes :: "string \<Rightarrow> string \<Rightarrow> bool" where
  "str_includes [] sub = (sub = [])"
| "str_includes (c # cs) sub = (startsWith (c # cs) sub \<or> str_includes cs sub)"

text \<open>
  \<^verbatim>\<open>new Set(array)\<close> keeps the first occurrence of every element in insertion order;
  \<^verbatim>\<open>set.has\<close> is membership and \<^verbatim>\<open>set.size\<close> the length of that list.
\<close>

definition set_add :: "'a \<Rightarrow> 'a list \<Rightarrow> 'a list" where
  "set_add x s = (if x \<in> set s then s else s @ [x])"

definition new_Set :: "'a list \<Rightarrow> 'a list" where
  "new_Set xs = fold set_add xs []"

text \<open>
  A parameter object is the list of its own properties in insertion order; all property
  values of the parameter objects of this program are strings. \<open>getProp p k\<close> is \<^verbatim>\<open>p[k]\<close>
  (\<open>None\<close> for \<^verbatim>\<open>undefined\<close>); a string is truthy when it is not empty.
\<close>

type_synonym params = "(string \<times> string) list"

definition getProp :: "params \<Rightarrow> string \<Rightarrow> string option" where
  "getProp p k = map_of p k"

definition truthy :: "string option \<Rightarrow> bool" where
  "truthy v = (case v of None \<Rightarrow> False | Some s \<Rightarrow> s \<noteq> [])"

text \<open>\<^verbatim>\<open>JSON.stringify\<close> of such an object: the properties in insertion order, quoted and escaped.\<close>

definition hexDigit :: "nat \<Rightarrow> char" where
  "hexDigit n = (if n < 10 then char_of (48 + n) else char_of (87 + n))"

definition json_escape :: "char \<Rightarrow> string" where
  "json_escape c =
     (let n = (of_char c :: nat) in
      if c = CHR 0x22 then [CHR 0x5C, CHR 0x22]
      else if c = CHR 0x5C then [CHR 0x5C, CHR 0x5C]
      else if c = CHR 0x08 then [CHR 0x5C, CHR ''b'']
      else if c = CHR 0x0C then [CHR 0x5C, CHR ''f'']
      else if c = CHR 0x0A then [CHR 0x5C, CHR ''n'']
      else if c = CHR 0x0D then [CHR 0x5C, CHR ''r'']
      else if c = CHR 0x09 then [CHR 0x5C, CHR ''t'']
      else if n < 32 then [CHR 0x5C, CHR ''u'', CHR ''0'', CHR ''0'', hexDigit (n div 16), hexDigit (n mod 16)]
      else [c])"

definition json_quote :: "string \<Rightarrow> string" where
  "json_quote s = [CHR 0x22] @ concat (map json_escape s) @ [CHR 0x22]"

fun join :: "string \<Rightarrow> string list \<Rightarrow> string" where
  "join sep [] = []"
| "join sep [x] = x"
| "join sep (x # y # ys) = x @ sep @ join sep (y # ys)"

definition JSON_stringify :: "params \<Rightarrow> string" where
  "JSON_stringify p =
     ''{'' @ join '','' (map (\<lambda>(k, v). json_quote k @ '':'' @ json_quote v) p) @ ''}''"

section \<open>Models: ChangeDetail and ClarityImprovement (clarity-improvement.js)\<close>

record change =
  changeType :: string
  originalPhrase :: string
  improvedPhrase :: string
  reason :: string
  startPosition :: int
  endPosition :: int

definition validChangeTypes :: "string list" where
  "validChangeTypes = [''word-choice'', ''sentence-structure'', ''clarity'', ''conciseness'']"

text \<open>\<^verbatim>\<open>ChangeDetail._validate\<close>, the checks in the order of the source.\<close>

definition ChangeDetail_validate :: "change \<Rightarrow> error + unit" where
  "ChangeDetail_validate c =
     (if changeType c \<notin> set validChangeTypes then
        Inl (Error (''Invalid change type: '' @ changeType c @ ''. Must be one of: ''
                     @ join '', '' validChangeTypes))
      else if originalPhrase c = [] then
        Inl (Error ''originalPhrase is required and must be a string'')
      else if improvedPhrase c = [] then
        Inl (Error ''improvedPhrase is required and must be a string'')
      else if originalPhrase c = improvedPhrase c then
        Inl (Error ''originalPhrase and improvedPhrase must not be identical'')
      else if reason c = [] then
        Inl (Error ''reason is required and must be a string'')
      else if startPosition c < 0 then
        Inl (Error ''startPosition must be a non-negative number'')
      else if endPosition c < 0 then
        Inl (Error ''endPosition must be a non-negative number'')
      else if startPosition c \<ge> endPosition c then
        Inl (Error ''startPosition must be less than endPosition'')
      else Inr ())"

text \<open>\<^verbatim>\<open>new ChangeDetail(...)\<close>: assign the six fields, then validate.\<close>

definition new_ChangeDetail ::
  "string \<Rightarrow> string \<Rightarrow> string \<Rightarrow> string \<Rightarrow> int \<Rightarrow> int \<Rightarrow> error + change" where
  "new_ChangeDetail ct orig impr rsn sp ep =
     (let c = \<lparr>changeType = ct, originalPhrase = orig, improvedPhrase = impr, reason = rsn,
               startPosition = sp, endPosition = ep\<rparr>
      in case ChangeDetail_validate c of Inl e \<Rightarrow> Inl e | Inr _ \<Rightarrow> Inr c)"

record clarity_improvement =
  ci_improvedText :: string
  ci_improvementType :: string
  ci_confidenceScore :: rat
  ci_changes :: "change list"
  ci_processingTime :: int
  ci_apiParameters :: params
  ci_timestamp :: int

text \<open>
  \<^verbatim>\<open>ClarityImprovement._validate\<close>. The changes handed to the constructor by the code
  modelled here are ChangeDetail instances, so the \<^verbatim>\<open>instanceof\<close> loop passes.
\<close>

definition ClarityImprovement_validate :: "clarity_improvement \<Rightarrow> error + unit" where
  "ClarityImprovement_validate ci =
     (if ci_improvedText ci = [] then
        Inl (Error ''improvedText is required and must not be empty'')
      else if ci_improvementType ci \<notin> set [''rewriter'', ''prompt''] then
        Inl (Error ''improvementType must be one of: rewriter, prompt'')
      else if ci_confidenceScore ci < 0 \<or> ci_confidenceScore ci > 1 then
        Inl (Error ''confidenceScore must be a number between 0 and 1'')
      else if length (ci_changes ci) = 0 then
        Inl (Error ''changes array must contain at least one change'')
      else if ci_processingTime ci \<le> 0 then
        Inl (Error ''processingTime must be a positive number'')
      else Inr ())"

section \<open>Model: TextContent (text-content.js)\<close>

datatype lifecycle = Created | Analyzing | Analyzed | Accepted | Rejected

fun state_name :: "lifecycle \<Rightarrow> string" where
  "state_name Created = ''Created''"
| "state_name Analyzing = ''Analyzing''"
| "state_name Analyzed = ''Analyzed''"
| "state_name Accepted = ''Accepted''"
| "state_name Rejected = ''Rejected''"

record text_content =
  tc_originalText :: string
  tc_fieldType :: string
  tc_fieldContext :: string
  tc_timestamp :: int
  tc_wordCount :: nat
  tc_state :: lifecycle

definition calculateWordCount :: "string \<Rightarrow> nat" where
  "calculateWordCount text =
     (if text = [] then 0
      else length (filter (\<lambda>word. length word > 0) (split_ws (trim text))))"

definition TextContent_validate :: "text_content \<Rightarrow> error + unit" where
  "TextContent_validate tc =
     (if length (tc_originalText tc) = 0 then
        Inl (Error ''originalText must not be empty (minimum 1 character)'')
      else if length (tc_originalText tc) > 5000 then
        Inl (Error ''originalText maximum length is 5000 characters (based on AI model limits)'')
      else if tc_fieldType tc \<notin> set [''input'', ''textarea'', ''contenteditable''] then
        Inl (Error ''fieldType must be one of the three supported types: input, textarea, contenteditable'')
      else if tc_fieldContext tc = [] then
        Inl (Error ''fieldContext must be a valid CSS selector'')
      else if length (trim (tc_fieldContext tc)) = 0 then
        Inl (Error ''fieldContext must be a valid CSS selector'')
      else Inr ())"

text \<open>
  The four transition methods. A method mutates the sample or throws; the pair returned is
  the outcome and the sample as the call leaves it.
\<close>

definition setAnalyzing :: "text_content \<Rightarrow> (error + unit) \<times> text_content" where
  "setAnalyzing tc =
     (if tc_state tc \<noteq> Created then
        (Inl (Error (''Cannot transition to Analyzing from '' @ state_name (tc_state tc))), tc)
      else (Inr (), tc\<lparr>tc_state := Analyzing\<rparr>))"

definition setAnalyzed :: "text_content \<Rightarrow> (error + unit) \<times> text_content" where
  "setAnalyzed tc =
     (if tc_state tc \<noteq> Analyzing then
        (Inl (Error (''Cannot transition to Analyzed from '' @ state_name (tc_state tc))), tc)
      else (Inr (), tc\<lparr>tc_state := Analyzed\<rparr>))"

definition setAccepted :: "text_content \<Rightarrow> (error + unit) \<times> text_content" where
  "setAccepted tc =
     (if tc_state tc \<noteq> Analyzed then
        (Inl (Error (''Cannot transition to Accepted from '' @ state_name (tc_state tc))), tc)
      else (Inr (), tc\<lparr>tc_state := Accepted\<rparr>))"

definition setRejected :: "text_content \<Rightarrow> (error + unit) \<times> text_content" where
  "setRejected tc =
     (if tc_state tc \<noteq> Analyzed then
        (Inl (Error (''Cannot transition to Rejected from '' @ state_name (tc_state tc))), tc)
      else (Inr (), tc\<lparr>tc_state := Rejected\<rparr>))"

definition isEmpty :: "text_content \<Rightarrow> bool" where
  "isEmpty tc = (length (trim (tc_originalText tc)) = 0)"

section \<open>The runtime: clock, random numbers, the two backends\<close>

text \<open>
  The browser is a parameter of the model. \<open>env_defined api\<close> says whether the global
  \<^verbatim>\<open>Rewriter\<close> or \<^verbatim>\<open>Prompt\<close> exists; \<open>env_create\<close>, \<open>env_rewrite\<close> and \<open>env_prompt\<close> are the
  backend's answers (\<open>Inl\<close> a rejected promise); \<open>env_clock n\<close> is what the \<open>n\<close>-th reading of
  the clock returns and \<open>env_random n\<close> the \<open>n\<close>-th random draw. A backend session object is
  identified by the number it got when it was created.
\<close>

record env =
  env_defined :: "string \<Rightarrow> bool"
  env_create :: "string \<Rightarrow> params \<Rightarrow> error + unit"
  env_rewrite :: "nat \<Rightarrow> string \<Rightarrow> params \<Rightarrow> error + string"
  env_prompt :: "nat \<Rightarrow> string \<Rightarrow> error + string"
  env_clock :: "nat \<Rightarrow> int"
  env_random :: "nat \<Rightarrow> nat"

text \<open>
  What a spy on the runtime records, in order: a call of \<^verbatim>\<open>_analyzeWithRewriter\<close> or
  \<^verbatim>\<open>_analyzeWithPrompt\<close> (\<open>Attempt\<close>), a \<^verbatim>\<open>typeof\<close> availability test (\<open>Probe\<close>), a session
  creation and an invocation of a session.
\<close>

datatype event =
    Attempt string
  | Probe string
  | Create string params
  | Rewrite nat string params
  | PromptCall nat string

record session_data =
  sd_session :: nat
  sd_apiType :: string
  sd_parameters :: params
  sd_createdAt :: int
  sd_lastUsed :: int

text \<open>A session id \<^verbatim>\<open>ai_session_${Date.now()}_${random}\<close> is the pair of its two parts.\<close>

type_synonym session_id = "int \<times> nat"

record history_entry =
  he_originalText :: string
  he_clarityImprovement :: clarity_improvement
  he_timestamp :: int
  he_id :: "int \<times> nat"

text \<open>
  The mutable state: the fields of the AIService singleton (\<open>sessions\<close>, a Map in insertion
  order, and \<open>fallbackEnabled\<close>), the fields of the TextAnalyzer singleton, the number of
  clock readings, random draws and session objects so far, and the spy's record.
  The cleanup timer that \<^verbatim>\<open>createSession\<close> schedules fires five minutes later and is
  outside a run of the calls modelled here. An \<^verbatim>\<open>async\<close> method is what one call of it does
  from start to end, with no other call running between its \<^verbatim>\<open>await\<close>s.
\<close>

record sys =
  sessions :: "(session_id \<times> session_data) list"
  fallbackEnabled :: bool
  analysisHistory :: "history_entry list"
  maxHistorySize :: nat
  ticks :: nat
  draws :: nat
  objects :: nat
  trace :: "event list"

text \<open>The state after both constructors have run.\<close>

definition initial :: sys where
  "initial = \<lparr>sessions = [], fallbackEnabled = True, analysisHistory = [], maxHistorySize = 10,
              ticks = 0, draws = 0, objects = 0, trace = []\<rparr>"

definition dateNow :: "env \<Rightarrow> sys \<Rightarrow> int \<times> sys" where
  "dateNow env s = (env_clock env (ticks s), s\<lparr>ticks := Suc (ticks s)\<rparr>)"

definition mathRandom :: "env \<Rightarrow> sys \<Rightarrow> nat \<times> sys" where
  "mathRandom env s = (env_random env (draws s), s\<lparr>draws := Suc (draws s)\<rparr>)"

definition record_event :: "event \<Rightarrow> sys \<Rightarrow> sys" where
  "record_event ev s = s\<lparr>trace := trace s @ [ev]\<rparr>"

section \<open>AIService (ai-service.js)\<close>

datatype session_response =
    SessionCreated session_id nat "string list"
  | SessionError string string

record analysis =
  a_improvedText :: string
  a_confidenceScore :: rat
  a_processingTime :: int
  a_apiUsed :: string
  a_changes :: "change list"

text \<open>A response object: \<^verbatim>\<open>{success: true, ...}\<close> or \<^verbatim>\<open>{success: false, error: {code, message}}\<close>.\<close>

datatype ai_response =
    Success analysis
  | Failure string string

definition createErrorResponse :: "string \<Rightarrow> string \<Rightarrow> ai_response" where
  "createErrorResponse code msg = Failure code msg"

record session_request =
  sr_apiType :: string
  sr_defaultParameters :: "params option"

record analysis_request =
  rq_text :: string
  rq_apiType :: string
  rq_parameters :: "params option"

definition validateParameters :: "params \<Rightarrow> error + unit" where
  "validateParameters parameters =
     (if truthy (getProp parameters ''tone'')
         \<and> the (getProp parameters ''tone'') \<notin> set [''more-formal'', ''as-is'', ''more-casual'']
      then Inl (Error ''Invalid tone parameter'')
      else if truthy (getProp parameters ''length'')
         \<and> the (getProp parameters ''length'') \<notin> set [''shorter'', ''as-is'', ''longer'']
      then Inl (Error ''Invalid length parameter'')
      else Inr ())"

definition validateSessionRequest :: "session_request \<Rightarrow> error + unit" where
  "validateSessionRequest request =
     (if sr_apiType request = [] then Inl (Error ''Missing required parameter: apiType'')
      else if sr_apiType request \<notin> set [''rewriter'', ''prompt''] then Inl (Error ''Invalid API type'')
      else case sr_defaultParameters request of
             Some p \<Rightarrow> validateParameters p
           | None \<Rightarrow> Inr ())"

definition validateAnalysisRequest :: "analysis_request \<Rightarrow> error + unit" where
  "validateAnalysisRequest request =
     (if rq_text request = [] then Inl (Error ''Text cannot be empty'')
      else if length (rq_text request) > 5000 then Inl (Error ''TEXT_TOO_LONG'')
      else if rq_apiType request = [] then Inl (Error ''Missing required parameter: apiType'')
      else case rq_parameters request of
             Some p \<Rightarrow> validateParameters p
           | None \<Rightarrow> Inr ())"

definition validateRewriterParameters :: "params \<Rightarrow> params" where
  "validateRewriterParameters parameters =
     (if truthy (getProp parameters ''tone'') then [(''tone'', the (getProp parameters ''tone''))] else [])
     @ (if truthy (getProp parameters ''length'') then [(''length'', the (getProp parameters ''length''))] else [])
     @ (if truthy (getProp parameters ''format'') then [(''format'', the (getProp parameters ''format''))] else [])"

definition generateSessionId :: "env \<Rightarrow> sys \<Rightarrow> session_id \<times> sys" where
  "generateSessionId env s =
     (let (t, s1) = dateNow env s; (r, s2) = mathRandom env s1 in ((t, r), s2))"

text \<open>
  The \<^verbatim>\<open>catch\<close> of \<^verbatim>\<open>createSession\<close>: an error whose message contains one of the four
  validation phrases is thrown again, any other becomes a \<^verbatim>\<open>SESSION_FAILED\<close> response.
\<close>

definition createSession_catch :: "error \<Rightarrow> sys \<Rightarrow> (error + session_response) \<times> sys" where
  "createSession_catch e s =
     (if str_includes (message e) ''Missing required parameter''
         \<or> str_includes (message e) ''Invalid API type''
         \<or> str_includes (message e) ''Invalid tone parameter''
         \<or> str_includes (message e) ''Invalid length parameter''
      then (Inl e, s)
      else (Inr (SessionError ''SESSION_FAILED'' (message e)), s))"

text \<open>
  One of the two branches of \<^verbatim>\<open>createSession\<close>, which differ in the global they test and
  in the message: the \<^verbatim>\<open>typeof\<close> test, the backend's \<^verbatim>\<open>create\<close>, then the entry stored under
  the session id with two readings of the clock.
\<close>

definition createSession_branch ::
  "env \<Rightarrow> string \<Rightarrow> string \<Rightarrow> params \<Rightarrow> session_id \<Rightarrow> sys \<Rightarrow> (error + session_response) \<times> sys" where
  "createSession_branch env apiType unavailable defaultParameters sessionId s =
     (let s1 = record_event (Probe apiType) s in
      if \<not> env_defined env apiType then (Inr (SessionError ''API_NOT_AVAILABLE'' unavailable), s1)
      else
        let s2 = record_event (Create apiType defaultParameters) s1 in
        case env_create env apiType defaultParameters of
          Inl e \<Rightarrow> createSession_catch e s2
        | Inr _ \<Rightarrow>
            let session = objects s2;
                s3 = s2\<lparr>objects := Suc (objects s2)\<rparr>;
                (createdAt, s4) = dateNow env s3;
                (lastUsed, s5) = dateNow env s4;
                entry = \<lparr>sd_session = session, sd_apiType = apiType,
                         sd_parameters = defaultParameters,
                         sd_createdAt = createdAt, sd_lastUsed = lastUsed\<rparr>
            in (Inr (SessionCreated sessionId 5000 [''en'']),
                s5\<lparr>sessions := AList.update sessionId entry (sessions s5)\<rparr>))"

definition createSession :: "env \<Rightarrow> session_request \<Rightarrow> sys \<Rightarrow> (error + session_response) \<times> sys" where
  "createSession env request s =
     (case validateSessionRequest request of
        Inl e \<Rightarrow> createSession_catch e s
      | Inr _ \<Rightarrow>
          let apiType = sr_apiType request;
              defaultParameters = (case sr_defaultParameters request of None \<Rightarrow> [] | Some p \<Rightarrow> p);
              (sessionId, s1) = generateSessionId env s
          in if apiType = ''rewriter'' then
               createSession_branch env ''rewriter'' ''Rewriter API is not available''
                 defaultParameters sessionId s1
             else if apiType = ''prompt'' then
               createSession_branch env ''prompt'' ''Prompt API is not available''
                 defaultParameters sessionId s1
             else createSession_catch (Error ''Invalid API type'') s1)"

text \<open>
  The loop of \<^verbatim>\<open>_getOrCreateSession\<close> over the Map in insertion order: \<open>findSession\<close> is the
  first entry it accepts, \<open>touchSession\<close> the assignment to that entry's \<^verbatim>\<open>lastUsed\<close>.
\<close>

definition sessionMatches :: "string \<Rightarrow> params \<Rightarrow> session_data \<Rightarrow> bool" where
  "sessionMatches apiType parameters sessionData =
     (sd_apiType sessionData = apiType
      \<and> JSON_stringify (sd_parameters sessionData) = JSON_stringify parameters)"

fun findSession ::
  "string \<Rightarrow> params \<Rightarrow> (session_id \<times> session_data) list \<Rightarrow> (session_id \<times> session_data) option" where
  "findSession apiType parameters [] = None"
| "findSession apiType parameters ((sessionId, sessionData) # rest) =
     (if sessionMatches apiType parameters sessionData then Some (sessionId, sessionData)
      else findSession apiType parameters rest)"

fun touchSession ::
  "string \<Rightarrow> params \<Rightarrow> int \<Rightarrow> (session_id \<times> session_data) list \<Rightarrow> (session_id \<times> session_data) list" where
  "touchSession apiType parameters t [] = []"
| "touchSession apiType parameters t ((sessionId, sessionData) # rest) =
     (if sessionMatches apiType parameters sessionData
      then (sessionId, sessionData\<lparr>sd_lastUsed := t\<rparr>) # rest
      else (sessionId, sessionData) # touchSession apiType parameters t rest)"

definition getOrCreateSession :: "env \<Rightarrow> string \<Rightarrow> params \<Rightarrow> sys \<Rightarrow> (error + nat) \<times> sys" where
  "getOrCreateSession env apiType parameters s =
     (case findSession apiType parameters (sessions s) of
        Some (sessionId, sessionData) \<Rightarrow>
          let (t, s1) = dateNow env s
          in (Inr (sd_session sessionData),
              s1\<lparr>sessions := touchSession apiType parameters t (sessions s1)\<rparr>)
      | None \<Rightarrow>
          (case createSession env \<lparr>sr_apiType = apiType, sr_defaultParameters = Some parameters\<rparr> s of
             (Inl e, s1) \<Rightarrow> (Inl e, s1)
           | (Inr (SessionError code msg), s1) \<Rightarrow>
               (Inl (Error (''Failed to create '' @ apiType @ '' session'')), s1)
           | (Inr (SessionCreated sessionId maxTextLength supportedLanguages), s1) \<Rightarrow>
               (case map_of (sessions s1) sessionId of
                  Some sessionData \<Rightarrow> (Inr (sd_session sessionData), s1)
                | None \<Rightarrow> (Inl (Error ''Cannot read properties of undefined''), s1))))"

definition createClarityPrompt :: "string \<Rightarrow> params \<Rightarrow> string" where
  "createClarityPrompt text parameters =
     (let tone = (if truthy (getProp parameters ''tone'') then the (getProp parameters ''tone'')
                  else ''neutral'');
          len = (if truthy (getProp parameters ''length'') then the (getProp parameters ''length'')
                 else ''as-is'');
          prompt = ''Please improve the clarity of the following text. Focus on:'' @ [CHR 0x0A]
            @ ''- Removing unnecessary words and phrases'' @ [CHR 0x0A]
            @ ''- Making the meaning clearer and more direct'' @ [CHR 0x0A]
            @ ''- Improving sentence structure for better readability'' @ [CHR 0x0A]
            @ ''- Maintaining the original meaning and intent'' @ [CHR 0x0A]
            @ [CHR 0x0A]
            @ ''Text to improve: '' @ [CHR 0x22] @ text @ [CHR 0x22] @ [CHR 0x0A]
            @ [CHR 0x0A]
            @ ''Please provide only the improved text without any explanations.'';
          prompt = (if tone = ''more-formal'' then prompt @ [CHR 0x0A] @ ''Use a more formal tone.''
                    else if tone = ''more-casual'' then prompt @ [CHR 0x0A] @ ''Use a more casual tone.''
                    else prompt);
          prompt = (if len = ''shorter'' then prompt @ [CHR 0x0A] @ ''Make the text more concise.''
                    else if len = ''longer'' then prompt @ [CHR 0x0A] @ ''Expand the text for more clarity.''
                    else prompt)
      in prompt)"

text \<open>\<^verbatim>\<open>_calculateSimilarity\<close>: the two word sets, their intersection and union, the ratio of the sizes.\<close>

definition calculateSimilarity :: "string \<Rightarrow> string \<Rightarrow> rat" where
  "calculateSimilarity text1 text2 =
     (let words1 = new_Set (split_ws (toLowerCase text1));
          words2 = new_Set (split_ws (toLowerCase text2));
          intersection = new_Set (filter (\<lambda>word. word \<in> set words2) words1);
          union = new_Set (words1 @ words2)
      in (of_nat (length intersection) / of_nat (length union) :: rat))"

text \<open>\<^verbatim>\<open>_calculateConfidenceScore\<close>, statement by statement.\<close>

definition calculateConfidenceScore :: "string \<Rightarrow> string \<Rightarrow> rat" where
  "calculateConfidenceScore originalText improvedText =
     (if originalText = [] \<or> improvedText = [] then 0
      else
        let originalWords = length (split_ws (trim originalText));
            improvedWords = length (split_ws (trim improvedText));
            lengthRatio = (of_int \<bar>int improvedWords - int originalWords\<bar> / of_nat originalWords :: rat);
            similarityScore = calculateSimilarity originalText improvedText;
            confidence = (7 / 10 :: rat);
            confidence = (if lengthRatio > 1 / 10 then confidence + 1 / 10 else confidence);
            confidence = (if similarityScore > 3 / 10 \<and> similarityScore < 9 / 10
                          then confidence + 2 / 10 else confidence)
        in min confidence 1)"

definition generateChangeDetails :: "string \<Rightarrow> string \<Rightarrow> change list" where
  "generateChangeDetails originalText improvedText =
     (if originalText \<noteq> improvedText then
        [\<lparr>changeType = ''clarity'',
          originalPhrase = (if length originalText > 50 then take 47 originalText @ ''...''
                            else originalText),
          improvedPhrase = (if length improvedText > 50 then take 47 improvedText @ ''...''
                            else improvedText),
          reason = ''Overall clarity improvement'',
          startPosition = 0,
          endPosition = int (length originalText)\<rparr>]
      else [])"

text \<open>
  \<^verbatim>\<open>_analyzeWithRewriter\<close> and \<^verbatim>\<open>_analyzeWithPrompt\<close> return \<^verbatim>\<open>null\<close> (\<open>None\<close>) when the global is
  undefined or anything in the \<^verbatim>\<open>try\<close> block throws; what was done to the state before the
  throw stays done.
\<close>

definition analyzeWithRewriter :: "env \<Rightarrow> string \<Rightarrow> params \<Rightarrow> sys \<Rightarrow> analysis option \<times> sys" where
  "analyzeWithRewriter env text parameters s =
     (let s1 = record_event (Probe ''rewriter'') (record_event (Attempt ''rewriter'') s) in
      if \<not> env_defined env ''rewriter'' then (None, s1)
      else
        let (startTime, s2) = dateNow env s1 in
        case getOrCreateSession env ''rewriter'' parameters s2 of
          (Inl e, s3) \<Rightarrow> (None, s3)
        | (Inr rewriterSession, s3) \<Rightarrow>
            let validatedParams = validateRewriterParameters parameters;
                options = (''context'', ''Improve text clarity and readability'') # validatedParams;
                s4 = record_event (Rewrite rewriterSession text options) s3
            in case env_rewrite env rewriterSession text options of
                 Inl e \<Rightarrow> (None, s4)
               | Inr improvedText \<Rightarrow>
                   let (endTime, s5) = dateNow env s4;
                       processingTime = endTime - startTime
                   in (Some \<lparr>a_improvedText = improvedText,
                              a_confidenceScore = calculateConfidenceScore text improvedText,
                              a_processingTime = processingTime,
                              a_apiUsed = ''rewriter'',
                              a_changes = generateChangeDetails text improvedText\<rparr>, s5))"

definition analyzeWithPrompt :: "env \<Rightarrow> string \<Rightarrow> params \<Rightarrow> sys \<Rightarrow> analysis option \<times> sys" where
  "analyzeWithPrompt env text parameters s =
     (let s1 = record_event (Probe ''prompt'') (record_event (Attempt ''prompt'') s) in
      if \<not> env_defined env ''prompt'' then (None, s1)
      else
        let (startTime, s2) = dateNow env s1 in
        case getOrCreateSession env ''prompt'' parameters s2 of
          (Inl e, s3) \<Rightarrow> (None, s3)
        | (Inr promptSession, s3) \<Rightarrow>
            let clarityPrompt = createClarityPrompt text parameters;
                s4 = record_event (PromptCall promptSession clarityPrompt) s3
            in case env_prompt env promptSession clarityPrompt of
                 Inl e \<Rightarrow> (None, s4)
               | Inr improvedText \<Rightarrow>
                   let (endTime, s5) = dateNow env s4;
                       processingTime = endTime - startTime
                   in (Some \<lparr>a_improvedText = improvedText,
                              a_confidenceScore = calculateConfidenceScore text improvedText,
                              a_processingTime = processingTime,
                              a_apiUsed = ''prompt'',
                              a_changes = generateChangeDetails text improvedText\<rparr>, s5))"

text \<open>The \<^verbatim>\<open>catch\<close> of \<^verbatim>\<open>analyzeText\<close>: the two text errors are thrown again, any other is answered.\<close>

definition analyzeText_catch :: "error \<Rightarrow> sys \<Rightarrow> (error + ai_response) \<times> sys" where
  "analyzeText_catch e s =
     (if message e = ''Text cannot be empty'' then (Inl e, s)
      else if message e = ''TEXT_TOO_LONG'' then (Inl e, s)
      else (Inr (createErrorResponse ''PROCESSING_ERROR'' (message e)), s))"

text \<open>
  \<^verbatim>\<open>AIService.analyzeText\<close>: validation, the primary backend, the fallback when the primary
  gave \<^verbatim>\<open>null\<close> and \<^verbatim>\<open>fallbackEnabled\<close> is set, the error response when there is still no result.
\<close>

definition AIService_analyzeText :: "env \<Rightarrow> analysis_request \<Rightarrow> sys \<Rightarrow> (error + ai_response) \<times> sys" where
  "AIService_analyzeText env request s =
     (case validateAnalysisRequest request of
        Inl e \<Rightarrow> analyzeText_catch e s
      | Inr _ \<Rightarrow>
          let text = rq_text request;
              apiType = rq_apiType request;
              parameters = (case rq_parameters request of None \<Rightarrow> [] | Some p \<Rightarrow> p);
              (result, s1) =
                (if apiType = ''rewriter'' then analyzeWithRewriter env text parameters s
                 else if apiType = ''prompt'' then analyzeWithPrompt env text parameters s
                 else (None, s));
              (result, s2) =
                (if result = None \<and> fallbackEnabled s1 then
                   (if apiType = ''rewriter'' then
                      (case analyzeWithPrompt env text parameters s1 of
                         (Some r, s') \<Rightarrow> (Some (r\<lparr>a_apiUsed := ''prompt''\<rparr>), s')
                       | (None, s') \<Rightarrow> (None, s'))
                    else if apiType = ''prompt'' then
                      (case analyzeWithRewriter env text parameters s1 of
                         (Some r, s') \<Rightarrow> (Some (r\<lparr>a_apiUsed := ''rewriter''\<rparr>), s')
                       | (None, s') \<Rightarrow> (None, s'))
                    else (result, s1))
                 else (result, s1))
          in case result of
               None \<Rightarrow> (Inr (createErrorResponse ''API_UNAVAILABLE''
                               ''No AI APIs available for text analysis''), s2)
             | Some r \<Rightarrow> (Inr (Success r), s2))"

section \<open>ClarityImprovement: constructor and factory\<close>

text \<open>\<^verbatim>\<open>new ClarityImprovement(...)\<close> reads the clock for its timestamp, then validates.\<close>

definition new_ClarityImprovement ::
  "env \<Rightarrow> string \<Rightarrow> string \<Rightarrow> rat \<Rightarrow> change list \<Rightarrow> int \<Rightarrow> params \<Rightarrow> sys
    \<Rightarrow> (error + clarity_improvement) \<times> sys" where
  "new_ClarityImprovement env improvedText improvementType confidenceScore changes processingTime
       apiParameters s =
     (let (t, s1) = dateNow env s;
          ci = \<lparr>ci_improvedText = improvedText, ci_improvementType = improvementType,
                ci_confidenceScore = confidenceScore, ci_changes = changes,
                ci_processingTime = processingTime, ci_apiParameters = apiParameters,
                ci_timestamp = t\<rparr>
      in case ClarityImprovement_validate ci of
           Inl e \<Rightarrow> (Inl e, s1)
         | Inr _ \<Rightarrow> (Inr ci, s1))"

text \<open>The \<^verbatim>\<open>changes.map\<close> of the factory: each plain object goes through the constructor.\<close>

fun convertChanges :: "change list \<Rightarrow> error + change list" where
  "convertChanges [] = Inr []"
| "convertChanges (c # cs) =
     (case new_ChangeDetail (changeType c) (originalPhrase c) (improvedPhrase c) (reason c)
             (startPosition c) (endPosition c) of
        Inl e \<Rightarrow> Inl e
      | Inr d \<Rightarrow> (case convertChanges cs of Inl e \<Rightarrow> Inl e | Inr ds \<Rightarrow> Inr (d # ds)))"

text \<open>
  \<^verbatim>\<open>ClarityImprovement.createFromAIResponse\<close>. With no changes in the response it builds one
  change over the whole original text; \<^verbatim>\<open>x || d\<close> takes \<open>d\<close> for an empty string and for 0.
\<close>

definition createFromAIResponse ::
  "env \<Rightarrow> ai_response \<Rightarrow> string \<Rightarrow> sys \<Rightarrow> (error + clarity_improvement) \<times> sys" where
  "createFromAIResponse env aiResponse originalText s =
     (case aiResponse of
        Failure code msg \<Rightarrow> (Inl (Error ''Invalid AI response''), s)
      | Success r \<Rightarrow>
          (case (if length (a_changes r) = 0 then
                   (case new_ChangeDetail ''clarity'' originalText (a_improvedText r)
                           ''Overall clarity improvement'' 0 (int (length originalText)) of
                      Inl e \<Rightarrow> Inl e
                    | Inr c \<Rightarrow> Inr [c])
                 else convertChanges (a_changes r)) of
             Inl e \<Rightarrow> (Inl e, s)
           | Inr changes \<Rightarrow>
               new_ClarityImprovement env (a_improvedText r)
                 (if a_apiUsed r \<noteq> [] then a_apiUsed r else ''rewriter'')
                 (if a_confidenceScore r \<noteq> 0 then a_confidenceScore r else 7 / 10)
                 changes (a_processingTime r) [] s))"

section \<open>TextAnalyzer (text-analyzer.js)\<close>

text \<open>
  The preferences object as the analyzer reads it: an empty \<open>up_preferredApi\<close> or
  \<open>up_preferredTone\<close> stands for a missing property, \<open>up_getAIParameters\<close> is what the
  method of that name returns when the object has one.
\<close>

record user_preferences =
  up_preferredApi :: string
  up_getAIParameters :: "params option"
  up_preferredTone :: string
  up_showChangeDetails :: bool

definition no_preferences :: user_preferences where
  "no_preferences = \<lparr>up_preferredApi = [], up_getAIParameters = None, up_preferredTone = [],
                     up_showChangeDetails = False\<rparr>"

text \<open>\<^verbatim>\<open>UserPreferences.getAIParameters\<close> (user-preferences.js), for a preferred tone.\<close>

definition getAIParameters :: "string \<Rightarrow> params" where
  "getAIParameters preferredTone =
     [(''tone'', (if preferredTone = ''formal'' then ''more-formal''
                  else if preferredTone = ''neutral'' then ''as-is''
                  else if preferredTone = ''casual'' then ''more-casual''
                  else ''as-is'')),
      (''format'', ''plain-text''),
      (''length'', ''as-is'')]"

definition getDefaultParameters :: "user_preferences \<Rightarrow> params" where
  "getDefaultParameters preferences =
     [(''tone'', (if up_preferredTone preferences = ''formal'' then ''more-formal''
                  else if up_preferredTone preferences = ''casual'' then ''more-casual''
                  else ''as-is'')),
      (''length'', ''as-is''),
      (''format'', ''plain-text'')]"

text \<open>
  \<^verbatim>\<open>_createAnalysisRequest\<close>. The request's \<^verbatim>\<open>context\<close> property is left out: AIService never
  reads it, and building it cannot throw.
\<close>

definition createAnalysisRequest :: "text_content \<Rightarrow> user_preferences \<Rightarrow> analysis_request" where
  "createAnalysisRequest textContent userPreferences =
     \<lparr>rq_text = tc_originalText textContent,
      rq_apiType = (if up_preferredApi userPreferences \<noteq> [] then up_preferredApi userPreferences
                    else ''rewriter''),
      rq_parameters = Some (case up_getAIParameters userPreferences of
                              Some p \<Rightarrow> p
                            | None \<Rightarrow> getDefaultParameters userPreferences)\<rparr>"

record analysis_result =
  ar_originalText :: string
  ar_improvedText :: string
  ar_changes :: "change list"
  ar_confidenceScore :: rat
  ar_processingTime :: int
  ar_improvementType :: string
  ar_textContentId :: int

definition generateHistoryId :: "env \<Rightarrow> sys \<Rightarrow> (int \<times> nat) \<times> sys" where
  "generateHistoryId env s =
     (let (t, s1) = dateNow env s; (r, s2) = mathRandom env s1 in ((t, r), s2))"

text \<open>\<^verbatim>\<open>_addToHistory\<close>: \<^verbatim>\<open>unshift\<close> the new entry, then \<^verbatim>\<open>slice(0, maxHistorySize)\<close> when too long.\<close>

definition addToHistory :: "env \<Rightarrow> string \<Rightarrow> clarity_improvement \<Rightarrow> sys \<Rightarrow> sys" where
  "addToHistory env originalText clarityImprovement s =
     (let (timestamp, s1) = dateNow env s;
          (entryId, s2) = generateHistoryId env s1;
          historyEntry = \<lparr>he_originalText = originalText,
                          he_clarityImprovement = clarityImprovement,
                          he_timestamp = timestamp, he_id = entryId\<rparr>;
          unshifted = historyEntry # analysisHistory s2
      in s2\<lparr>analysisHistory :=
               (if length unshifted > maxHistorySize s2 then take (maxHistorySize s2) unshifted
                else unshifted)\<rparr>)"

text \<open>
  The \<^verbatim>\<open>try\<close> block of \<^verbatim>\<open>analyzeTextContent\<close>. The sample is mutated in place, so the sample
  as the block leaves it is returned with the outcome.
\<close>

definition analyzeTextContent_try ::
  "env \<Rightarrow> text_content \<Rightarrow> user_preferences \<Rightarrow> sys
    \<Rightarrow> (error + analysis_result) \<times> text_content \<times> sys" where
  "analyzeTextContent_try env textContent userPreferences s =
     (case setAnalyzing textContent of
        (Inl e, tc1) \<Rightarrow> (Inl e, tc1, s)
      | (Inr _, tc1) \<Rightarrow>
          let analysisRequest = createAnalysisRequest tc1 userPreferences in
          (case AIService_analyzeText env analysisRequest s of
             (Inl e, s1) \<Rightarrow> (Inl e, tc1, s1)
           | (Inr (Failure code msg), s1) \<Rightarrow>
               (case setRejected tc1 of
                  (Inl e, tc2) \<Rightarrow> (Inl e, tc2, s1)
                | (Inr _, tc2) \<Rightarrow>
                    (Inl (Error (if msg \<noteq> [] then msg else ''AI analysis failed'')), tc2, s1))
           | (Inr (Success r), s1) \<Rightarrow>
               (case createFromAIResponse env (Success r) (tc_originalText tc1) s1 of
                  (Inl e, s2) \<Rightarrow> (Inl e, tc1, s2)
                | (Inr clarityImprovement, s2) \<Rightarrow>
                    (case setAnalyzed tc1 of
                       (Inl e, tc2) \<Rightarrow> (Inl e, tc2, s2)
                     | (Inr _, tc2) \<Rightarrow>
                         let analysisResult =
                               \<lparr>ar_originalText = tc_originalText tc2,
                                ar_improvedText = ci_improvedText clarityImprovement,
                                ar_changes = ci_changes clarityImprovement,
                                ar_confidenceScore = ci_confidenceScore clarityImprovement,
                                ar_processingTime = ci_processingTime clarityImprovement,
                                ar_improvementType = ci_improvementType clarityImprovement,
                                ar_textContentId = tc_timestamp tc2\<rparr>;
                             s3 = addToHistory env (tc_originalText tc2) clarityImprovement s2
                         in (Inr analysisResult, tc2, s3)))))"

text \<open>
  \<^verbatim>\<open>analyzeTextContent\<close>: the emptiness check, the \<^verbatim>\<open>try\<close> block, and the \<^verbatim>\<open>catch\<close>, which calls
  \<^verbatim>\<open>setRejected\<close> and throws the caught error again unless \<^verbatim>\<open>setRejected\<close> itself throws.
\<close>

definition analyzeTextContent ::
  "env \<Rightarrow> text_content \<Rightarrow> user_preferences \<Rightarrow> sys
    \<Rightarrow> (error + analysis_result) \<times> text_content \<times> sys" where
  "analyzeTextContent env textContent userPreferences s =
     (if isEmpty textContent then (Inl (Error ''Cannot analyze empty text content''), textContent, s)
      else
        (case analyzeTextContent_try env textContent userPreferences s of
           (Inr analysisResult, tc1, s1) \<Rightarrow> (Inr analysisResult, tc1, s1)
         | (Inl e, tc1, s1) \<Rightarrow>
             (case setRejected tc1 of
                (Inl e', tc2) \<Rightarrow> (Inl e', tc2, s1)
              | (Inr _, tc2) \<Rightarrow> (Inl e, tc2, s1))))"

text \<open>\<^verbatim>\<open>new TextContent(...)\<close>: timestamp, word count, state \<^verbatim>\<open>Created\<close>, then validation.\<close>

definition new_TextContent ::
  "env \<Rightarrow> string \<Rightarrow> string \<Rightarrow> string \<Rightarrow> sys \<Rightarrow> (error + text_content) \<times> sys" where
  "new_TextContent env originalText fieldType fieldContext s =
     (let (t, s1) = dateNow env s;
          tc = \<lparr>tc_originalText = originalText, tc_fieldType = fieldType,
                tc_fieldContext = fieldContext, tc_timestamp = t,
                tc_wordCount = calculateWordCount originalText, tc_state = Created\<rparr>
      in case TextContent_validate tc of
           Inl e \<Rightarrow> (Inl e, s1)
         | Inr _ \<Rightarrow> (Inr tc, s1))"

record analyze_options =
  op_fieldType :: string
  op_fieldContext :: string
  op_userPreferences :: user_preferences

text \<open>\<^verbatim>\<open>TextAnalyzer.analyzeText\<close>: the analysis of a plain string through a temporary sample.\<close>

definition TextAnalyzer_analyzeText ::
  "env \<Rightarrow> string \<Rightarrow> analyze_options \<Rightarrow> sys \<Rightarrow> (error + analysis_result) \<times> sys" where
  "TextAnalyzer_analyzeText env text options s =
     (if text = [] then (Inl (Error ''Text is required and must be a string''), s)
      else if length (trim text) = 0 then (Inl (Error ''Text cannot be empty''), s)
      else
        (case new_TextContent env text
                (if op_fieldType options \<noteq> [] then op_fieldType options else ''textarea'')
                (if op_fieldContext options \<noteq> [] then op_fieldContext options else ''temp-analysis'')
                s of
           (Inl e, s1) \<Rightarrow> (Inl e, s1)
         | (Inr textContent, s1) \<Rightarrow>
             (case analyzeTextContent env textContent (op_userPreferences options) s1 of
                (outcome, tc1, s2) \<Rightarrow> (outcome, s2))))"

text \<open>
  \<^verbatim>\<open>assessAnalysisQuality\<close>, statement by statement. The last check divides by the length of
  the original text: for an empty original the quotient is \<^verbatim>\<open>Infinity\<close> (or \<^verbatim>\<open>NaN\<close> for 0/0),
  which exceeds 0.5 exactly when the difference is not 0.
\<close>

record assessment =
  quality :: string
  reasons :: "string list"

definition assessAnalysisQuality :: "analysis_result \<Rightarrow> assessment" where
  "assessAnalysisQuality analysisResult =
     (if ar_improvedText analysisResult = [] then
        \<lparr>quality = ''poor'', reasons = [''No improved text provided'']\<rparr>
      else
        let rs = [];
            q = ''good'';
            (q, rs) =
              (if ar_confidenceScore analysisResult < 6 / 10 then
                 (''poor'', rs @ [''Low confidence score''])
               else if ar_confidenceScore analysisResult < 8 / 10 then
                 (''medium'', rs @ [''Medium confidence score''])
               else (q, rs));
            rs = (if ar_processingTime analysisResult > 2000 then rs @ [''Slow processing time'']
                  else rs);
            (q, rs) =
              (if ar_originalText analysisResult = ar_improvedText analysisResult then
                 (''poor'', rs @ [''No changes made to text''])
               else (q, rs));
            rs = (if length (ar_changes analysisResult) = 0
                  then rs @ [''No specific changes documented''] else rs);
            originalLength = int (length (ar_originalText analysisResult));
            improvedLength = int (length (ar_improvedText analysisResult));
            lengthDifference = \<bar>originalLength - improvedLength\<bar>;
            exceeds = (if originalLength = 0 then lengthDifference \<noteq> 0
                       else (of_int lengthDifference / of_int originalLength :: rat) > 1 / 2);
            rs = (if exceeds then rs @ [''Significant length change - may have altered meaning'']
                  else rs)
        in \<lparr>quality = q, reasons = rs\<rparr>)"

section \<open>Notions used in the statements\<close>

subsection \<open>Confidence as the specification words it\<close>

text \<open>
  The words of a text are its maximal runs of characters that are not whitespace, none of
  them empty; the word count is their number and the word set of a text is the set of the
  words of the lower-cased text. The word-overlap similarity is the size of the
  intersection of the two word sets over the size of their union. These follow the
  wording of the specification and use nothing of \<^verbatim>\<open>_calculateConfidenceScore\<close>.
  (For an original text without any word the specified ratio divides by zero.)
\<close>

fun words_from :: "string \<Rightarrow> string \<Rightarrow> string list" where
  "words_from cur [] = (if cur = [] then [] else [rev cur])"
| "words_from cur (c # cs) =
     (if isWhitespace c
      then (if cur = [] then words_from [] cs else rev cur # words_from [] cs)
      else words_from (c # cur) cs)"

definition words_of :: "string \<Rightarrow> string list" where
  "words_of t = words_from [] t"

definition wordCount :: "string \<Rightarrow> nat" where
  "wordCount t = length (words_of t)"

definition word_set :: "string \<Rightarrow> string set" where
  "word_set t = set (words_of (toLowerCase t))"

definition claimed_similarity :: "string \<Rightarrow> string \<Rightarrow> rat" where
  "claimed_similarity a b =
     of_nat (card (word_set a \<inter> word_set b)) / of_nat (card (word_set a \<union> word_set b))"

definition claimed_confidence :: "string \<Rightarrow> string \<Rightarrow> rat" where
  "claimed_confidence original improved =
     min 1 (7 / 10
            + (if of_int \<bar>int (wordCount improved) - int (wordCount original)\<bar>
                    / of_nat (wordCount original) > (1 / 10 :: rat) then 1 / 10 else 0)
            + (if 3 / 10 < claimed_similarity original improved
                  \<and> claimed_similarity original improved < 9 / 10
               then 2 / 10 else 0))"

subsection \<open>The lifecycle as the specification words it\<close>

definition allowed_transitions :: "(lifecycle \<times> lifecycle) list" where
  "allowed_transitions =
     [(Created, Analyzing), (Analyzing, Analyzed), (Analyzed, Accepted), (Analyzed, Rejected)]"

text \<open>Each transition method with the state it moves to.\<close>

definition transition_methods ::
  "(lifecycle \<times> (text_content \<Rightarrow> (error + unit) \<times> text_content)) list" where
  "transition_methods =
     [(Analyzing, setAnalyzing), (Analyzed, setAnalyzed), (Accepted, setAccepted),
      (Rejected, setRejected)]"

subsection \<open>A sequence of analyses\<close>

text \<open>
  \<open>run_analyses\<close> analyzes the samples one after the other and returns, in this order, the
  original and the improved text of every analysis that succeeded, with the final state.
  \<open>entry_summary\<close> reads the same two texts from a history entry.
\<close>

definition entry_summary :: "history_entry \<Rightarrow> string \<times> string" where
  "entry_summary e = (he_originalText e, ci_improvedText (he_clarityImprovement e))"

fun run_analyses ::
  "env \<Rightarrow> (text_content \<times> user_preferences) list \<Rightarrow> sys \<Rightarrow> (string \<times> string) list \<times> sys" where
  "run_analyses env [] s = ([], s)"
| "run_analyses env ((textContent, userPreferences) # rest) s =
     (case analyzeTextContent env textContent userPreferences s of
        (Inr r, tc1, s1) \<Rightarrow>
          (case run_analyses env rest s1 of
             (later, s2) \<Rightarrow> ((ar_originalText r, ar_improvedText r) # later, s2))
      | (Inl e, tc1, s1) \<Rightarrow> run_analyses env rest s1)"

subsection \<open>The session table and the spy's record\<close>

text \<open>The entries of the table that the loop of \<^verbatim>\<open>_getOrCreateSession\<close> would accept.\<close>

definition matchingSessions ::
  "string \<Rightarrow> params \<Rightarrow> (session_id \<times> session_data) list \<Rightarrow> (session_id \<times> session_data) list" where
  "matchingSessions apiType parameters xs =
     filter (\<lambda>(sessionId, sessionData). sessionMatches apiType parameters sessionData) xs"

definition afterGetOrCreate :: "env \<Rightarrow> string \<Rightarrow> params \<Rightarrow> sys \<Rightarrow> sys" where
  "afterGetOrCreate env apiType parameters s = snd (getOrCreateSession env apiType parameters s)"

text \<open>
  A call reuses a cached session when it returns a session and has created none: no new
  session object, nothing new in the spy's record, the same keys in the table.
\<close>

definition reusesSession :: "env \<Rightarrow> string \<Rightarrow> params \<Rightarrow> sys \<Rightarrow> bool" where
  "reusesSession env apiType parameters s =
     (case getOrCreateSession env apiType parameters s of
        (Inr h, s') \<Rightarrow> objects s' = objects s \<and> trace s' = trace s
                        \<and> map fst (sessions s') = map fst (sessions s)
      | (Inl e, s') \<Rightarrow> False)"

text \<open>The backends attempted, in order, as the spy recorded them.\<close>

fun attempts_of :: "event list \<Rightarrow> string list" where
  "attempts_of [] = []"
| "attempts_of (Attempt api # evs) = api # attempts_of evs"
| "attempts_of (ev # evs) = attempts_of evs"

definition analyzeWith :: "env \<Rightarrow> string \<Rightarrow> string \<Rightarrow> params \<Rightarrow> sys \<Rightarrow> analysis option \<times> sys" where
  "analyzeWith env api =
     (if api = ''rewriter'' then analyzeWithRewriter env else analyzeWithPrompt env)"

definition otherBackend :: "string \<Rightarrow> string" where
  "otherBackend api = (if api = ''rewriter'' then ''prompt'' else ''rewriter'')"

definition requestParameters :: "analysis_request \<Rightarrow> params" where
  "requestParameters request = (case rq_parameters request of None \<Rightarrow> [] | Some p \<Rightarrow> p)"

subsection \<open>Concrete inputs\<close>

text \<open>A browser with the Rewriter only, whose sessions return their input unchanged.\<close>

definition echo_env :: env where
  "echo_env = \<lparr>env_defined = (\<lambda>api. api = ''rewriter''),
               env_create = (\<lambda>api p. Inr ()),
               env_rewrite = (\<lambda>session original options. Inr original),
               env_prompt = (\<lambda>session prompt. Inr prompt),
               env_clock = (\<lambda>n. 1000 + 5 * int n),
               env_random = (\<lambda>n. n)\<rparr>"

definition sample_text :: "lifecycle \<Rightarrow> text_content" where
  "sample_text st = \<lparr>tc_originalText = ''hello world'', tc_fieldType = ''textarea'',
                     tc_fieldContext = ''#message'', tc_timestamp = 1000, tc_wordCount = 2,
                     tc_state = st\<rparr>"

text \<open>A browser whose Rewriter puts "Clear: " in front of its input, and numbered samples.\<close>

definition improving_env :: env where
  "improving_env = \<lparr>env_defined = (\<lambda>api. api = ''rewriter''),
                    env_create = (\<lambda>api p. Inr ()),
                    env_rewrite = (\<lambda>session original options. Inr (''Clear: '' @ original)),
                    env_prompt = (\<lambda>session prompt. Inr prompt),
                    env_clock = (\<lambda>n. 1000 + 5 * int n),
                    env_random = (\<lambda>n. n)\<rparr>"

definition numbered_job :: "nat \<Rightarrow> text_content \<times> user_preferences" where
  "numbered_job n =
     (\<lparr>tc_originalText = replicate n CHR ''a'', tc_fieldType = ''textarea'',
       tc_fieldContext = ''#message'', tc_timestamp = 1000, tc_wordCount = 1,
       tc_state = Created\<rparr>, no_preferences)"

definition numbered_outcome :: "nat \<Rightarrow> string \<times> string" where
  "numbered_outcome n = (replicate n CHR ''a'', ''Clear: '' @ replicate n CHR ''a'')"

text \<open>A browser with the Prompt API only.\<close>

definition prompt_env :: env where
  "prompt_env = \<lparr>env_defined = (\<lambda>api. api = ''prompt''),
                 env_create = (\<lambda>api p. Inr ()),
                 env_rewrite = (\<lambda>session original options. Inr original),
                 env_prompt = (\<lambda>session prompt. Inr ''Improved sample text.''),
                 env_clock = (\<lambda>n. 1000 + 5 * int n),
                 env_random = (\<lambda>n. n)\<rparr>"

definition sample_request :: analysis_request where
  "sample_request = \<lparr>rq_text = ''Sample text that needs improvement'',
                     rq_apiType = ''rewriter'', rq_parameters = None\<rparr>"

text \<open>The table after the public \<^verbatim>\<open>createSession\<close> has been called twice with the same request.\<close>

definition duplicate_sessions :: sys where
  "duplicate_sessions =
     snd (createSession echo_env \<lparr>sr_apiType = ''rewriter'', sr_defaultParameters = Some []\<rparr>
       (snd (createSession echo_env \<lparr>sr_apiType = ''rewriter'', sr_defaultParameters = Some []\<rparr>
          initial)))"

definition unchanged_result :: analysis_result where
  "unchanged_result = \<lparr>ar_originalText = ''hello world'', ar_improvedText = ''hello world'',
                       ar_changes = [], ar_confidenceScore = 9 / 10, ar_processingTime = 2500,
                       ar_improvementType = ''rewriter'', ar_textContentId = 1000\<rparr>"

text \<open>A browser with neither API.\<close>

definition no_backend_env :: env where
  "no_backend_env = \<lparr>env_defined = (\<lambda>api. False),
                     env_create = (\<lambda>api p. Inl (Error ''unavailable'')),
                     env_rewrite = (\<lambda>session original options. Inl (Error ''unavailable'')),
                     env_prompt = (\<lambda>session prompt. Inl (Error ''unavailable'')),
                     env_clock = (\<lambda>n. 1000 + 5 * int n),
                     env_random = (\<lambda>n. n)\<rparr>"

definition default_options :: analyze_options where
  "default_options = \<lparr>op_fieldType = [], op_fieldContext = [],
                      op_userPreferences = no_preferences\<rparr>"

definition echo_request :: analysis_request where
  "echo_request = \<lparr>rq_text = ''hello world'', rq_apiType = ''rewriter'',
                   rq_parameters = Some (getDefaultParameters no_preferences)\<rparr>"

section \<open>Properties\<close>

subsection \<open>Sets and word splitting\<close>

lemma set_fold_set_add: "set (fold set_add xs acc) = set xs \<union> set acc"
  by (induction xs arbitrary: acc) (auto simp: set_add_def)

lemma distinct_fold_set_add: "distinct acc \<Longrightarrow> distinct (fold set_add xs acc)"
  by (induction xs arbitrary: acc) (auto simp: set_add_def)

lemma set_new_Set: "set (new_Set xs) = set xs"
  by (simp add: new_Set_def set_fold_set_add)

lemma length_new_Set: "length (new_Set xs) = card (set xs)"
proof -
  have "distinct (new_Set xs)"
    by (simp add: new_Set_def distinct_fold_set_add)
  then have "card (set (new_Set xs)) = length (new_Set xs)"
    by (rule distinct_card)
  then show ?thesis
    by (simp add: set_new_Set)
qed

lemma split_from_not_Nil: "split_from cur s \<noteq> []"
  by (induction cur s rule: split_from.induct) auto

lemma split_ws_not_Nil: "split_ws s \<noteq> []"
  by (simp add: split_ws_def split_from_not_Nil)

lemma calculateSimilarity_card:
  "calculateSimilarity a b =
     of_nat (card (set (split_ws (toLowerCase a)) \<inter> set (split_ws (toLowerCase b))))
     / of_nat (card (set (split_ws (toLowerCase a)) \<union> set (split_ws (toLowerCase b))))"
proof -
  have "set (filter (\<lambda>w. w \<in> set (new_Set B)) (new_Set A)) = set A \<inter> set B"
    for A B :: "string list"
    by (auto simp: set_new_Set)
  then show ?thesis
    by (simp add: calculateSimilarity_def Let_def length_new_Set set_new_Set)
qed

lemma calculateSimilarity_same: "calculateSimilarity t t = 1"
proof -
  have "set (split_ws (toLowerCase t)) \<noteq> {}"
    using split_ws_not_Nil [of "toLowerCase t"] by simp
  then have "card (set (split_ws (toLowerCase t))) \<noteq> 0"
    by simp
  then show ?thesis
    by (simp add: calculateSimilarity_card)
qed

lemma confidence_score_bounds:
  "0 \<le> calculateConfidenceScore a b \<and> calculateConfidenceScore a b \<le> 1"
  by (simp add: calculateConfidenceScore_def Let_def min_def)

subsection \<open>Confidence score\<close>

text \<open>
  C2. The claim gives the confidence of two non-empty texts as min(1, 0.7 + (0.1 if the
  word-count delta ratio exceeds 0.1) + (0.2 if the word-overlap similarity of the two word
  sets lies strictly between 0.3 and 0.9)). The code departs from it where a text starts
  or ends with whitespace: \<^verbatim>\<open>_calculateSimilarity\<close> splits the text without trimming it, as
  the word count two lines above it does, so the empty piece before the first word enters
  the set as a word. For " hello" and "hello" both texts have the one word "hello" and the
  same word set, the claimed confidence is 0.7, and the code computes the similarity 1/2
  and returns 0.9.
\<close>

theorem confidence_score_leading_space:
  "'' hello'' \<noteq> [] \<and> ''hello'' \<noteq> []
   \<and> wordCount '' hello'' = 1 \<and> wordCount ''hello'' = 1
   \<and> word_set '' hello'' = word_set ''hello''
   \<and> claimed_similarity '' hello'' ''hello'' = 1
   \<and> claimed_confidence '' hello'' ''hello'' = 7 / 10
   \<and> split_ws (toLowerCase '' hello'') = [[], ''hello'']
   \<and> calculateSimilarity '' hello'' ''hello'' = 1 / 2
   \<and> calculateConfidenceScore '' hello'' ''hello'' = 9 / 10"
  by code_simp

subsection \<open>Lifecycle of a text sample\<close>

text \<open>
  C7. A transition method succeeds exactly from the state that the lifecycle
  created \<rightarrow> analyzing \<rightarrow> analyzed \<rightarrow> accepted | rejected allows for its target, and then moves
  the sample there; from every other state it throws "Cannot transition to ... from ..."
  and the sample stays as it was. Every allowed transition has its method.
\<close>

theorem lifecycle_transitions:
  "(target, m) \<in> set transition_methods \<Longrightarrow>
     ((tc_state tc, target) \<in> set allowed_transitions \<longrightarrow>
        m tc = (Inr (), tc\<lparr>tc_state := target\<rparr>))
     \<and> ((tc_state tc, target) \<notin> set allowed_transitions \<longrightarrow>
        m tc = (Inl (Error (''Cannot transition to '' @ state_name target @ '' from ''
                             @ state_name (tc_state tc))), tc))
     \<and> snd ` set allowed_transitions = fst ` set transition_methods"
  by (cases "tc_state tc")
     (auto simp: transition_methods_def allowed_transitions_def setAnalyzing_def setAnalyzed_def
        setAccepted_def setRejected_def)

theorem lifecycle_transitions_witness:
  "(Rejected, setRejected) \<in> set transition_methods
   \<and> (tc_state (sample_text Analyzed), Rejected) \<in> set allowed_transitions
   \<and> setRejected (sample_text Analyzed) = (Inr (), sample_text Rejected)
   \<and> (tc_state (sample_text Analyzing), Rejected) \<notin> set allowed_transitions
   \<and> setRejected (sample_text Analyzing)
       = (Inl (Error ''Cannot transition to Rejected from Analyzing''), sample_text Analyzing)"
proof -
  have m: "(Rejected, setRejected) \<in> set transition_methods"
    by (simp add: transition_methods_def)
  show ?thesis
    using m lifecycle_transitions [OF m, of "sample_text Analyzed"]
      lifecycle_transitions [OF m, of "sample_text Analyzing"]
    by (simp add: sample_text_def allowed_transitions_def)
qed

subsection \<open>Quality assessment\<close>

text \<open>
  C8. For a result with an improved text: when the improved text equals the original the
  level is poor whatever the confidence, and "No changes made to text" is among the
  reasons; the processing time never changes the level, and a time above 2000 ms adds the
  one reason "Slow processing time" to the reasons the same result has otherwise.
\<close>

theorem quality_no_change_and_slow:
  "ar_improvedText r \<noteq> [] \<Longrightarrow>
     (ar_originalText r = ar_improvedText r \<longrightarrow>
        quality (assessAnalysisQuality r) = ''poor''
        \<and> ''No changes made to text'' \<in> set (reasons (assessAnalysisQuality r)))
     \<and> quality (assessAnalysisQuality r)
         = quality (assessAnalysisQuality (r\<lparr>ar_processingTime := 0\<rparr>))
     \<and> (ar_processingTime r > 2000 \<longrightarrow>
          ''Slow processing time'' \<in> set (reasons (assessAnalysisQuality r))
          \<and> remove1 ''Slow processing time'' (reasons (assessAnalysisQuality r))
              = reasons (assessAnalysisQuality (r\<lparr>ar_processingTime := 0\<rparr>)))
     \<and> (ar_processingTime r \<le> 2000 \<longrightarrow>
          reasons (assessAnalysisQuality r)
            = reasons (assessAnalysisQuality (r\<lparr>ar_processingTime := 0\<rparr>)))"
  by (simp add: assessAnalysisQuality_def Let_def)

theorem quality_no_change_and_slow_witness:
  "ar_improvedText unchanged_result \<noteq> []
   \<and> ar_originalText unchanged_result = ar_improvedText unchanged_result
   \<and> ar_processingTime unchanged_result > 2000
   \<and> ar_confidenceScore unchanged_result = 9 / 10
   \<and> quality (assessAnalysisQuality unchanged_result) = ''poor''
   \<and> ''No changes made to text'' \<in> set (reasons (assessAnalysisQuality unchanged_result))
   \<and> ''Slow processing time'' \<in> set (reasons (assessAnalysisQuality unchanged_result))
   \<and> quality (assessAnalysisQuality unchanged_result)
       = quality (assessAnalysisQuality (unchanged_result\<lparr>ar_processingTime := 0\<rparr>))"
proof -
  have h: "ar_improvedText unchanged_result \<noteq> []"
    by (simp add: unchanged_result_def)
  have f: "ar_originalText unchanged_result = ar_improvedText unchanged_result"
      "ar_processingTime unchanged_result > 2000" "ar_confidenceScore unchanged_result = 9 / 10"
    by (simp_all add: unchanged_result_def)
  note t = quality_no_change_and_slow [OF h]
  have q: "quality (assessAnalysisQuality unchanged_result) = ''poor''"
      "''No changes made to text'' \<in> set (reasons (assessAnalysisQuality unchanged_result))"
    using t f(1) by blast+
  have u: "quality (assessAnalysisQuality unchanged_result)
       = quality (assessAnalysisQuality (unchanged_result\<lparr>ar_processingTime := 0\<rparr>))"
    using t by blast
  have w: "''Slow processing time'' \<in> set (reasons (assessAnalysisQuality unchanged_result))"
    using t f(2) by blast
  show ?thesis
    using h f q w u by blast
qed

subsection \<open>Validation comes first\<close>

text \<open>
  C4. \<^verbatim>\<open>AIService.analyzeText\<close> with an empty text throws "Text cannot be empty", with a text
  longer than 5000 it throws "TEXT_TOO_LONG"; in both cases the state is the one before
  the call: no availability test, no session and no invocation has happened. The same
  holds one level up: \<^verbatim>\<open>TextAnalyzer.analyzeText\<close> throws for an empty text with the state
  untouched, and for a text longer than 5000 it throws from its own checks or from the
  \<^verbatim>\<open>TextContent\<close> constructor, with nothing recorded by the spy and no session.
\<close>

theorem validation_before_backend:
  "(rq_text request = [] \<longrightarrow>
      AIService_analyzeText env request s = (Inl (Error ''Text cannot be empty''), s))
   \<and> (length (rq_text request) > 5000 \<longrightarrow>
      AIService_analyzeText env request s = (Inl (Error ''TEXT_TOO_LONG''), s))
   \<and> (original = [] \<longrightarrow>
      TextAnalyzer_analyzeText env original options s
        = (Inl (Error ''Text is required and must be a string''), s))
   \<and> (length original > 5000 \<longrightarrow>
      fst (TextAnalyzer_analyzeText env original options s)
        \<in> {Inl (Error ''Text cannot be empty''),
            Inl (Error ''originalText maximum length is 5000 characters (based on AI model limits)'')}
      \<and> trace (snd (TextAnalyzer_analyzeText env original options s)) = trace s
      \<and> sessions (snd (TextAnalyzer_analyzeText env original options s)) = sessions s
      \<and> objects (snd (TextAnalyzer_analyzeText env original options s)) = objects s)"
  by (auto simp: AIService_analyzeText_def validateAnalysisRequest_def analyzeText_catch_def
        TextAnalyzer_analyzeText_def new_TextContent_def TextContent_validate_def dateNow_def Let_def)

theorem validation_before_backend_witness:
  "rq_text (sample_request\<lparr>rq_text := []\<rparr>) = []
   \<and> AIService_analyzeText echo_env (sample_request\<lparr>rq_text := []\<rparr>) initial
       = (Inl (Error ''Text cannot be empty''), initial)
   \<and> length (rq_text (sample_request\<lparr>rq_text := replicate 5001 CHR ''a''\<rparr>)) > 5000
   \<and> AIService_analyzeText echo_env (sample_request\<lparr>rq_text := replicate 5001 CHR ''a''\<rparr>) initial
       = (Inl (Error ''TEXT_TOO_LONG''), initial)
   \<and> TextAnalyzer_analyzeText echo_env [] default_options initial
       = (Inl (Error ''Text is required and must be a string''), initial)
   \<and> length (replicate 5001 CHR ''a'') > 5000
   \<and> trace (snd (TextAnalyzer_analyzeText echo_env (replicate 5001 CHR ''a'') default_options
                    initial)) = []
   \<and> sessions (snd (TextAnalyzer_analyzeText echo_env (replicate 5001 CHR ''a'') default_options
                       initial)) = []"
  using validation_before_backend [of "sample_request\<lparr>rq_text := []\<rparr>" echo_env initial
      "[]" default_options]
    validation_before_backend [of "sample_request\<lparr>rq_text := replicate 5001 CHR ''a''\<rparr>"
      echo_env initial "replicate 5001 CHR ''a''" default_options]
  by (simp add: initial_def)

subsection \<open>The session table\<close>

lemmas runtime_defs = dateNow_def mathRandom_def record_event_def generateSessionId_def

lemma sessionMatches_touch [simp]:
  "sessionMatches a p (d\<lparr>sd_lastUsed := t\<rparr>) = sessionMatches a p d"
  by (simp add: sessionMatches_def)

lemma findSession_None_iff:
  "findSession a p xs = None \<longleftrightarrow> matchingSessions a p xs = []"
  by (induction xs) (auto simp: matchingSessions_def)

lemma findSession_exists:
  "(\<exists>(sessionId, sessionData) \<in> set xs. sessionMatches a p sessionData)
     \<longleftrightarrow> findSession a p xs \<noteq> None"
  by (induction xs) auto

lemma findSession_touch:
  "findSession a p xs = Some (sid, d) \<Longrightarrow>
     findSession a p (touchSession a p t xs) = Some (sid, d\<lparr>sd_lastUsed := t\<rparr>)"
  by (induction xs) (auto split: if_splits)

lemma matching_touch:
  "length (matchingSessions a p (touchSession a p t xs)) = length (matchingSessions a p xs)"
  by (induction xs) (auto simp: matchingSessions_def)

lemma keys_touch: "map fst (touchSession a p t xs) = map fst xs"
  by (induction xs) auto

lemma findSession_update_new:
  "findSession a p xs = None \<Longrightarrow> sessionMatches a p e \<Longrightarrow>
     findSession a p (AList.update k e xs) = Some (k, e)"
  by (induction xs) (auto split: if_splits)

lemma matching_update_new:
  "matchingSessions a p xs = [] \<Longrightarrow> sessionMatches a p e \<Longrightarrow>
     length (matchingSessions a p (AList.update k e xs)) = 1"
  by (induction xs) (auto simp: matchingSessions_def split: if_splits)

lemma createSession_created:
  "createSession env rq s = (Inr (SessionCreated sid m l), s1) \<Longrightarrow>
     \<exists>e. sessions s1 = AList.update sid e (sessions s)
        \<and> sd_apiType e = sr_apiType rq
        \<and> sd_parameters e = (case sr_defaultParameters rq of None \<Rightarrow> [] | Some p \<Rightarrow> p)
        \<and> sd_session e = objects s
        \<and> objects s1 = Suc (objects s)
        \<and> length (trace s1) = length (trace s) + 2"
  by (auto simp: createSession_def createSession_branch_def createSession_catch_def runtime_defs
        Let_def split_def split: sum.splits if_splits)

lemma getOrCreateSession_found:
  "findSession a p (sessions s) = Some (sid, d) \<Longrightarrow>
     getOrCreateSession env a p s =
       (Inr (sd_session d),
        s\<lparr>ticks := Suc (ticks s),
           sessions := touchSession a p (env_clock env (ticks s)) (sessions s)\<rparr>)"
  by (simp add: getOrCreateSession_def dateNow_def)

lemma getOrCreateSession_new:
  assumes "findSession a p (sessions s) = None"
    and "getOrCreateSession env a p s = (Inr h, s1)"
  shows "\<exists>sid e. sessions s1 = AList.update sid e (sessions s) \<and> sessionMatches a p e
           \<and> sd_session e = h \<and> objects s1 = Suc (objects s)
           \<and> length (trace s1) = length (trace s) + 2"
proof -
  obtain r s' where c: "createSession env \<lparr>sr_apiType = a, sr_defaultParameters = Some p\<rparr> s = (r, s')"
    by (cases "createSession env \<lparr>sr_apiType = a, sr_defaultParameters = Some p\<rparr> s")
  from assms c obtain sid m l where r: "r = Inr (SessionCreated sid m l)" and s1: "s' = s1"
    by (auto simp: getOrCreateSession_def split: sum.splits session_response.splits option.splits)
  from createSession_created [OF c [unfolded r s1]]
  obtain e where e: "sessions s1 = AList.update sid e (sessions s)" "sd_apiType e = a"
      "sd_parameters e = p" "sd_session e = objects s" "objects s1 = Suc (objects s)"
      "length (trace s1) = length (trace s) + 2"
    by auto
  have "map_of (sessions s1) sid = Some e"
    by (simp add: e(1) update_conv')
  with assms c r s1 have "h = sd_session e"
    by (auto simp: getOrCreateSession_def)
  with e have "sessions s1 = AList.update sid e (sessions s) \<and> sessionMatches a p e
           \<and> sd_session e = h \<and> objects s1 = Suc (objects s)
           \<and> length (trace s1) = length (trace s) + 2"
    by (simp add: sessionMatches_def)
  then show ?thesis by blast
qed

text \<open>
  C5, as the code has it. When a call of \<^verbatim>\<open>_getOrCreateSession\<close> has returned the session
  \<open>h\<close>, the same call made next returns \<open>h\<close> again and creates nothing: the state changes
  only by one reading of the clock and by the \<^verbatim>\<open>lastUsed\<close> of the entry found, which is the
  entry of the first call under the same id (so with the same \<^verbatim>\<open>createdAt\<close>). The number of
  matching entries afterwards is the number before the first call, or one if there was
  none: exactly one whenever the table held at most one before.
\<close>

theorem getOrCreateSession_twice:
  assumes first: "fst (getOrCreateSession env apiType parameters s) = Inr h"
  shows "fst (getOrCreateSession env apiType parameters (afterGetOrCreate env apiType parameters s))
           = Inr h
    \<and> afterGetOrCreate env apiType parameters (afterGetOrCreate env apiType parameters s)
        = (afterGetOrCreate env apiType parameters s)
          \<lparr>ticks := Suc (ticks (afterGetOrCreate env apiType parameters s)),
           sessions := touchSession apiType parameters
                         (env_clock env (ticks (afterGetOrCreate env apiType parameters s)))
                         (sessions (afterGetOrCreate env apiType parameters s))\<rparr>
    \<and> (\<exists>sessionId sessionData.
          findSession apiType parameters (sessions (afterGetOrCreate env apiType parameters s))
            = Some (sessionId, sessionData)
          \<and> sd_session sessionData = h
          \<and> findSession apiType parameters
                (sessions (afterGetOrCreate env apiType parameters
                             (afterGetOrCreate env apiType parameters s)))
              = Some (sessionId, sessionData\<lparr>sd_lastUsed :=
                    env_clock env (ticks (afterGetOrCreate env apiType parameters s))\<rparr>))
    \<and> length (matchingSessions apiType parameters
          (sessions (afterGetOrCreate env apiType parameters
                       (afterGetOrCreate env apiType parameters s))))
        = max 1 (length (matchingSessions apiType parameters (sessions s)))"
proof -
  let ?s1 = "afterGetOrCreate env apiType parameters s"
  have run: "getOrCreateSession env apiType parameters s = (Inr h, ?s1)"
    using first by (simp add: prod_eq_iff afterGetOrCreate_def)
  have "\<exists>sid d. findSession apiType parameters (sessions ?s1) = Some (sid, d) \<and> sd_session d = h
          \<and> length (matchingSessions apiType parameters (sessions ?s1))
              = max 1 (length (matchingSessions apiType parameters (sessions s)))"
  proof (cases "findSession apiType parameters (sessions s)")
    case None
    from getOrCreateSession_new [OF None run]
    obtain sid e where e: "sessions ?s1 = AList.update sid e (sessions s)"
        "sessionMatches apiType parameters e" "sd_session e = h"
      by blast
    have empty: "matchingSessions apiType parameters (sessions s) = []"
      using None by (simp add: findSession_None_iff)
    have "findSession apiType parameters (sessions ?s1) = Some (sid, e)"
      using findSession_update_new [OF None e(2)] e(1) by simp
    moreover have "length (matchingSessions apiType parameters (sessions ?s1)) = 1"
      using matching_update_new [OF empty e(2)] e(1) by simp
    ultimately show ?thesis using e(3) empty by simp
  next
    case (Some found)
    obtain sid d where found: "found = (sid, d)" by (cases found)
    have f: "findSession apiType parameters (sessions s) = Some (sid, d)"
      using Some found by simp
    have nonempty: "matchingSessions apiType parameters (sessions s) \<noteq> []"
      using f findSession_None_iff [of apiType parameters "sessions s"] by simp
    then have ge: "1 \<le> length (matchingSessions apiType parameters (sessions s))"
      by (cases "matchingSessions apiType parameters (sessions s)") simp_all
    have eq: "getOrCreateSession env apiType parameters s =
       (Inr (sd_session d), s\<lparr>ticks := Suc (ticks s),
           sessions := touchSession apiType parameters (env_clock env (ticks s)) (sessions s)\<rparr>)"
      by (rule getOrCreateSession_found [OF f])
    have h: "sd_session d = h" using eq run by simp
    have s1: "sessions ?s1 = touchSession apiType parameters (env_clock env (ticks s)) (sessions s)"
      using eq by (simp add: afterGetOrCreate_def)
    have "findSession apiType parameters (sessions ?s1)
            = Some (sid, d\<lparr>sd_lastUsed := env_clock env (ticks s)\<rparr>)"
      using findSession_touch [OF f] s1 by simp
    moreover have "length (matchingSessions apiType parameters (sessions ?s1))
            = length (matchingSessions apiType parameters (sessions s))"
      using matching_touch s1 by simp
    ultimately show ?thesis using h ge by simp
  qed
  then obtain sid d where d: "findSession apiType parameters (sessions ?s1) = Some (sid, d)"
      "sd_session d = h"
      "length (matchingSessions apiType parameters (sessions ?s1))
         = max 1 (length (matchingSessions apiType parameters (sessions s)))"
    by blast
  have second: "getOrCreateSession env apiType parameters ?s1 =
       (Inr h, ?s1\<lparr>ticks := Suc (ticks ?s1),
           sessions := touchSession apiType parameters (env_clock env (ticks ?s1)) (sessions ?s1)\<rparr>)"
    using getOrCreateSession_found [OF d(1), of env] d(2) by simp
  have "findSession apiType parameters
          (touchSession apiType parameters (env_clock env (ticks ?s1)) (sessions ?s1))
        = Some (sid, d\<lparr>sd_lastUsed := env_clock env (ticks ?s1)\<rparr>)"
    by (rule findSession_touch [OF d(1)])
  then show ?thesis
    using second d by (simp add: matching_touch afterGetOrCreate_def)
qed

theorem getOrCreateSession_twice_witness:
  "fst (getOrCreateSession echo_env ''rewriter'' [] initial) = Inr 0
   \<and> fst (getOrCreateSession echo_env ''rewriter'' []
            (afterGetOrCreate echo_env ''rewriter'' [] initial)) = Inr 0
   \<and> length (matchingSessions ''rewriter'' []
        (sessions (afterGetOrCreate echo_env ''rewriter'' []
                     (afterGetOrCreate echo_env ''rewriter'' [] initial)))) = 1"
proof -
  have h: "fst (getOrCreateSession echo_env ''rewriter'' [] initial) = Inr 0"
    by code_simp
  have n: "matchingSessions ''rewriter'' [] (sessions initial) = []"
    by (simp add: initial_def matchingSessions_def)
  note t = getOrCreateSession_twice [OF h]
  have again: "fst (getOrCreateSession echo_env ''rewriter'' []
            (afterGetOrCreate echo_env ''rewriter'' [] initial)) = Inr 0"
    using t by blast
  have "length (matchingSessions ''rewriter'' []
        (sessions (afterGetOrCreate echo_env ''rewriter'' []
                     (afterGetOrCreate echo_env ''rewriter'' [] initial))))
      = max 1 (length (matchingSessions ''rewriter'' [] (sessions initial)))"
    using t by blast
  then show ?thesis
    using h again n by simp
qed

text \<open>
  The claim as stated fails where the public \<^verbatim>\<open>createSession\<close> has stored two entries for
  the same pair: both calls return the first of them and two matching entries remain.
\<close>

theorem one_matching_entry_counterexample:
  "fst (getOrCreateSession echo_env ''rewriter'' [] duplicate_sessions) = Inr 0
   \<and> fst (getOrCreateSession echo_env ''rewriter'' []
            (afterGetOrCreate echo_env ''rewriter'' [] duplicate_sessions)) = Inr 0
   \<and> length (matchingSessions ''rewriter'' []
        (sessions (afterGetOrCreate echo_env ''rewriter'' []
                     (afterGetOrCreate echo_env ''rewriter'' [] duplicate_sessions)))) = 2"
  by code_simp

text \<open>
  C10. \<^verbatim>\<open>_getOrCreateSession\<close> reuses a cached session exactly when some stored entry has the
  requested \<^verbatim>\<open>apiType\<close> and parameters with the same \<^verbatim>\<open>JSON.stringify\<close> text. The default
  parameters of the analyzer and those of \<^verbatim>\<open>UserPreferences.getAIParameters\<close> for a neutral
  tone are the same key-value map in a different key order, and requesting one after the
  other creates two sessions.
\<close>

theorem session_reuse_by_stringify:
  "(reusesSession env apiType parameters s \<longleftrightarrow>
      (\<exists>(sessionId, sessionData) \<in> set (sessions s).
          sd_apiType sessionData = apiType
          \<and> JSON_stringify (sd_parameters sessionData) = JSON_stringify parameters))
   \<and> map_of (getDefaultParameters no_preferences) = map_of (getAIParameters ''neutral'')
   \<and> fst (getOrCreateSession echo_env ''rewriter'' (getDefaultParameters no_preferences) initial)
        = Inr 0
   \<and> fst (getOrCreateSession echo_env ''rewriter'' (getAIParameters ''neutral'')
            (afterGetOrCreate echo_env ''rewriter'' (getDefaultParameters no_preferences) initial))
        = Inr 1
   \<and> length (sessions (afterGetOrCreate echo_env ''rewriter'' (getAIParameters ''neutral'')
            (afterGetOrCreate echo_env ''rewriter'' (getDefaultParameters no_preferences) initial)))
        = 2"
proof -
  have iff: "reusesSession env apiType parameters s \<longleftrightarrow>
      (\<exists>(sessionId, sessionData) \<in> set (sessions s). sessionMatches apiType parameters sessionData)"
  proof (cases "findSession apiType parameters (sessions s)")
    case None
    have "\<not> reusesSession env apiType parameters s"
    proof (cases "getOrCreateSession env apiType parameters s")
      case (Pair r s1)
      show ?thesis
      proof (cases r)
        case (Inl e)
        then show ?thesis using Pair by (simp add: reusesSession_def)
      next
        case (Inr h)
        from getOrCreateSession_new [OF None Pair [unfolded Inr]]
        have "length (trace s1) = length (trace s) + 2" by blast
        then have "trace s1 \<noteq> trace s" by auto
        then show ?thesis using Pair Inr by (simp add: reusesSession_def)
      qed
    qed
    then show ?thesis using None findSession_exists [of "sessions s" apiType parameters] by simp
  next
    case (Some found)
    obtain sid d where "found = (sid, d)" by (cases found)
    with Some have f: "findSession apiType parameters (sessions s) = Some (sid, d)" by simp
    have "reusesSession env apiType parameters s"
      by (simp add: reusesSession_def getOrCreateSession_found [OF f] keys_touch)
    then show ?thesis using f findSession_exists [of "sessions s" apiType parameters] by simp
  qed
  have m: "map_of (getDefaultParameters no_preferences) = map_of (getAIParameters ''neutral'')"
    by (auto simp: getDefaultParameters_def getAIParameters_def no_preferences_def fun_eq_iff)
  have one: "fst (getOrCreateSession echo_env ''rewriter'' (getDefaultParameters no_preferences) initial)
        = Inr 0"
    by code_simp
  have two: "fst (getOrCreateSession echo_env ''rewriter'' (getAIParameters ''neutral'')
            (afterGetOrCreate echo_env ''rewriter'' (getDefaultParameters no_preferences) initial))
        = Inr 1"
    by code_simp
  have three: "length (sessions (afterGetOrCreate echo_env ''rewriter'' (getAIParameters ''neutral'')
            (afterGetOrCreate echo_env ''rewriter'' (getDefaultParameters no_preferences) initial)))
        = 2"
    by code_simp
  show ?thesis
    using iff m one two three by (simp add: sessionMatches_def)
qed

theorem session_reuse_by_stringify_witness:
  "(\<exists>(sessionId, sessionData)
       \<in> set (sessions (afterGetOrCreate echo_env ''rewriter'' [(''tone'', ''as-is'')] initial)).
       sd_apiType sessionData = ''rewriter''
       \<and> JSON_stringify (sd_parameters sessionData) = JSON_stringify [(''tone'', ''as-is'')])
   \<and> reusesSession echo_env ''rewriter'' [(''tone'', ''as-is'')]
        (afterGetOrCreate echo_env ''rewriter'' [(''tone'', ''as-is'')] initial)
   \<and> \<not> (\<exists>(sessionId, sessionData) \<in> set (sessions initial).
          sd_apiType sessionData = ''rewriter''
          \<and> JSON_stringify (sd_parameters sessionData) = JSON_stringify [(''tone'', ''as-is'')])
   \<and> \<not> reusesSession echo_env ''rewriter'' [(''tone'', ''as-is'')] initial"
proof -
  have stored: "\<exists>(sessionId, sessionData)
       \<in> set (sessions (afterGetOrCreate echo_env ''rewriter'' [(''tone'', ''as-is'')] initial)).
       sd_apiType sessionData = ''rewriter''
       \<and> JSON_stringify (sd_parameters sessionData) = JSON_stringify [(''tone'', ''as-is'')]"
    by code_simp
  have none: "sessions initial = []"
    by (simp add: initial_def)
  show ?thesis
    using stored none
      session_reuse_by_stringify [of echo_env "''rewriter''" "[(''tone'', ''as-is'')]"
        "afterGetOrCreate echo_env ''rewriter'' [(''tone'', ''as-is'')] initial"]
      session_reuse_by_stringify [of echo_env "''rewriter''" "[(''tone'', ''as-is'')]" initial]
    by simp
qed

subsection \<open>Fallback\<close>

lemma attempts_of_append: "attempts_of (xs @ ys) = attempts_of xs @ attempts_of ys"
  by (induction xs rule: attempts_of.induct) auto

lemma createSession_frame:
  "fallbackEnabled (snd (createSession env rq s)) = fallbackEnabled s
   \<and> attempts_of (trace (snd (createSession env rq s))) = attempts_of (trace s)"
  by (auto simp: createSession_def createSession_branch_def createSession_catch_def runtime_defs
        Let_def split_def attempts_of_append split: sum.splits if_splits)

lemma getOrCreateSession_frame:
  "fallbackEnabled (snd (getOrCreateSession env a p s)) = fallbackEnabled s
   \<and> attempts_of (trace (snd (getOrCreateSession env a p s))) = attempts_of (trace s)"
proof (cases "findSession a p (sessions s)")
  case None
  obtain r s1 where c: "createSession env \<lparr>sr_apiType = a, sr_defaultParameters = Some p\<rparr> s = (r, s1)"
    by (cases "createSession env \<lparr>sr_apiType = a, sr_defaultParameters = Some p\<rparr> s")
  have "snd (getOrCreateSession env a p s) = s1"
    using None c
    by (auto simp: getOrCreateSession_def split: sum.splits session_response.splits option.splits)
  then show ?thesis
    using createSession_frame [of env "\<lparr>sr_apiType = a, sr_defaultParameters = Some p\<rparr>" s] c
    by simp
next
  case (Some found)
  then show ?thesis
    by (cases found) (simp add: getOrCreateSession_found)
qed

lemma analyzeWithRewriter_frame:
  "fallbackEnabled (snd (analyzeWithRewriter env t p s)) = fallbackEnabled s
   \<and> attempts_of (trace (snd (analyzeWithRewriter env t p s)))
       = attempts_of (trace s) @ [''rewriter'']"
proof -
  let ?s2 = "(record_event (Probe ''rewriter'') (record_event (Attempt ''rewriter'') s))
               \<lparr>ticks := Suc (ticks s)\<rparr>"
  have base: "fallbackEnabled ?s2 = fallbackEnabled s
      \<and> attempts_of (trace ?s2) = attempts_of (trace s) @ [''rewriter'']"
    by (simp add: record_event_def attempts_of_append)
  show ?thesis
    using getOrCreateSession_frame [of env "''rewriter''" p ?s2] base
    by (auto simp: analyzeWithRewriter_def runtime_defs Let_def split_def attempts_of_append
          split: sum.splits prod.splits)
qed

lemma analyzeWithPrompt_frame:
  "fallbackEnabled (snd (analyzeWithPrompt env t p s)) = fallbackEnabled s
   \<and> attempts_of (trace (snd (analyzeWithPrompt env t p s)))
       = attempts_of (trace s) @ [''prompt'']"
proof -
  let ?s2 = "(record_event (Probe ''prompt'') (record_event (Attempt ''prompt'') s))
               \<lparr>ticks := Suc (ticks s)\<rparr>"
  have base: "fallbackEnabled ?s2 = fallbackEnabled s
      \<and> attempts_of (trace ?s2) = attempts_of (trace s) @ [''prompt'']"
    by (simp add: record_event_def attempts_of_append)
  show ?thesis
    using getOrCreateSession_frame [of env "''prompt''" p ?s2] base
    by (auto simp: analyzeWithPrompt_def runtime_defs Let_def split_def attempts_of_append
          split: sum.splits prod.splits)
qed

lemma analyzeWith_frame:
  "api \<in> {''rewriter'', ''prompt''} \<Longrightarrow>
   fallbackEnabled (snd (analyzeWith env api t p s)) = fallbackEnabled s
   \<and> attempts_of (trace (snd (analyzeWith env api t p s))) = attempts_of (trace s) @ [api]"
  using analyzeWithRewriter_frame [of env t p s] analyzeWithPrompt_frame [of env t p s]
  by (auto simp: analyzeWith_def)

lemma analyzeText_never_throws:
  assumes "rq_text request \<noteq> []" "length (rq_text request) \<le> 5000"
  shows "\<exists>response. fst (AIService_analyzeText env request s) = Inr response"
proof (cases "validateAnalysisRequest request")
  case (Inl e)
  then have "message e \<noteq> ''Text cannot be empty'' \<and> message e \<noteq> ''TEXT_TOO_LONG''"
    using assms
    by (auto simp: validateAnalysisRequest_def validateParameters_def
          split: if_splits option.splits)
  then show ?thesis
    using Inl by (simp add: AIService_analyzeText_def analyzeText_catch_def)
next
  case (Inr u)
  then show ?thesis
    by (auto simp: AIService_analyzeText_def Let_def split: prod.splits option.splits)
qed

lemma fallback_run:
  assumes valid: "validateAnalysisRequest request = Inr ()"
    and api: "rq_apiType request \<in> {''rewriter'', ''prompt''}"
    and enabled: "fallbackEnabled s"
    and fails: "fst (analyzeWith env (rq_apiType request) (rq_text request)
                       (requestParameters request) s) = None"
  shows "attempts_of (trace (snd (AIService_analyzeText env request s)))
           = attempts_of (trace s) @ [rq_apiType request, otherBackend (rq_apiType request)]
     \<and> fst (AIService_analyzeText env request s)
         = (case fst (analyzeWith env (otherBackend (rq_apiType request)) (rq_text request)
                        (requestParameters request)
                        (snd (analyzeWith env (rq_apiType request) (rq_text request)
                                (requestParameters request) s))) of
              Some r \<Rightarrow> Inr (Success (r\<lparr>a_apiUsed := otherBackend (rq_apiType request)\<rparr>))
            | None \<Rightarrow> Inr (Failure ''API_UNAVAILABLE'' ''No AI APIs available for text analysis''))"
proof -
  let ?t = "rq_text request" and ?p = "requestParameters request"
  let ?a = "rq_apiType request"
  obtain s1 where primary: "analyzeWith env ?a ?t ?p s = (None, s1)"
    using fails by (cases "analyzeWith env ?a ?t ?p s") simp
  have other: "otherBackend ?a \<in> {''rewriter'', ''prompt''}"
    by (simp add: otherBackend_def)
  have f1: "fallbackEnabled s1" and a1: "attempts_of (trace s1) = attempts_of (trace s) @ [?a]"
    using analyzeWith_frame [OF api, of env ?t ?p s] enabled primary by simp_all
  obtain r2 s2 where second: "analyzeWith env (otherBackend ?a) ?t ?p s1 = (r2, s2)"
    by (cases "analyzeWith env (otherBackend ?a) ?t ?p s1")
  have a2: "attempts_of (trace s2) = attempts_of (trace s) @ [?a, otherBackend ?a]"
    using analyzeWith_frame [OF other, of env ?t ?p s1] a1 second by simp
  have "AIService_analyzeText env request s =
          (case r2 of
             Some r \<Rightarrow> Inr (Success (r\<lparr>a_apiUsed := otherBackend ?a\<rparr>))
           | None \<Rightarrow> Inr (Failure ''API_UNAVAILABLE'' ''No AI APIs available for text analysis''), s2)"
    using valid api primary second f1
    by (auto simp: AIService_analyzeText_def analyzeWith_def otherBackend_def requestParameters_def
          createErrorResponse_def Let_def split: option.splits if_splits)
  then show ?thesis
    using a2 primary second by simp
qed

text \<open>
  C3. For a request with a valid text \<^verbatim>\<open>analyzeText\<close> never throws. When the request names
  one of the two backends with valid parameters, the primary backend gives no result (it
  is unavailable or something in its attempt throws) and fallback is enabled,
  \<^verbatim>\<open>analyzeText\<close> attempts the primary and then the other backend, each once and nothing
  after; it returns the other backend's result with \<^verbatim>\<open>apiUsed\<close> set to that backend when
  there is one, and the \<^verbatim>\<open>API_UNAVAILABLE\<close> response, not an exception, when there is none.
\<close>

theorem fallback_once:
  assumes valid_text: "rq_text request \<noteq> []" "length (rq_text request) \<le> 5000"
  shows "(\<exists>response. fst (AIService_analyzeText env request s) = Inr response)
     \<and> (rq_apiType request \<in> {''rewriter'', ''prompt''}
        \<and> validateParameters (requestParameters request) = Inr ()
        \<and> fallbackEnabled s
        \<and> fst (analyzeWith env (rq_apiType request) (rq_text request)
                 (requestParameters request) s) = None
        \<longrightarrow>
          attempts_of (trace (snd (AIService_analyzeText env request s)))
            = attempts_of (trace s) @ [rq_apiType request, otherBackend (rq_apiType request)]
          \<and> fst (AIService_analyzeText env request s)
              = (case fst (analyzeWith env (otherBackend (rq_apiType request)) (rq_text request)
                             (requestParameters request)
                             (snd (analyzeWith env (rq_apiType request) (rq_text request)
                                     (requestParameters request) s))) of
                   Some r \<Rightarrow> Inr (Success (r\<lparr>a_apiUsed := otherBackend (rq_apiType request)\<rparr>))
                 | None \<Rightarrow> Inr (Failure ''API_UNAVAILABLE''
                                   ''No AI APIs available for text analysis'')))"
proof -
  have "validateAnalysisRequest request = Inr ()"
    if "rq_apiType request \<in> {''rewriter'', ''prompt''}"
      and "validateParameters (requestParameters request) = Inr ()"
    using that valid_text
    by (auto simp: validateAnalysisRequest_def requestParameters_def split: option.splits)
  then show ?thesis
    using analyzeText_never_throws [OF valid_text, of env s] fallback_run [of request s env]
    by blast
qed

theorem fallback_once_witness:
  "rq_text sample_request \<noteq> [] \<and> length (rq_text sample_request) \<le> 5000
   \<and> rq_apiType sample_request \<in> {''rewriter'', ''prompt''}
   \<and> validateParameters (requestParameters sample_request) = Inr ()
   \<and> fallbackEnabled initial
   \<and> fst (analyzeWith prompt_env (rq_apiType sample_request) (rq_text sample_request)
            (requestParameters sample_request) initial) = None
   \<and> attempts_of (trace (snd (AIService_analyzeText prompt_env sample_request initial)))
       = [''rewriter'', ''prompt'']
   \<and> fst (AIService_analyzeText prompt_env sample_request initial)
       = Inr (Success \<lparr>a_improvedText = ''Improved sample text.'', a_confidenceScore = 4 / 5,
                        a_processingTime = 20, a_apiUsed = ''prompt'',
                        a_changes = [\<lparr>changeType = ''clarity'',
                                      originalPhrase = ''Sample text that needs improvement'',
                                      improvedPhrase = ''Improved sample text.'',
                                      reason = ''Overall clarity improvement'',
                                      startPosition = 0, endPosition = 34\<rparr>]\<rparr>)"
proof -
  have v: "rq_text sample_request \<noteq> []" "length (rq_text sample_request) \<le> 5000"
    by (simp_all add: sample_request_def)
  have a: "rq_apiType sample_request \<in> {''rewriter'', ''prompt''}"
    by (simp add: sample_request_def)
  have p: "validateParameters (requestParameters sample_request) = Inr ()"
    by code_simp
  have e: "fallbackEnabled initial"
    by (simp add: initial_def)
  have f: "fst (analyzeWith prompt_env (rq_apiType sample_request) (rq_text sample_request)
            (requestParameters sample_request) initial) = None"
    by code_simp
  have t: "attempts_of (trace initial) = []"
    by (simp add: initial_def)
  have r: "fst (AIService_analyzeText prompt_env sample_request initial)
       = Inr (Success \<lparr>a_improvedText = ''Improved sample text.'', a_confidenceScore = 4 / 5,
                        a_processingTime = 20, a_apiUsed = ''prompt'',
                        a_changes = [\<lparr>changeType = ''clarity'',
                                      originalPhrase = ''Sample text that needs improvement'',
                                      improvedPhrase = ''Improved sample text.'',
                                      reason = ''Overall clarity improvement'',
                                      startPosition = 0, endPosition = 34\<rparr>]\<rparr>)"
    by code_simp
  have "attempts_of (trace (snd (AIService_analyzeText prompt_env sample_request initial)))
       = attempts_of (trace initial)
           @ [rq_apiType sample_request, otherBackend (rq_apiType sample_request)]"
    using fallback_once [OF v, of prompt_env initial] a p e f by blast
  then have "attempts_of (trace (snd (AIService_analyzeText prompt_env sample_request initial)))
       = [''rewriter'', ''prompt'']"
    using t by (simp add: otherBackend_def sample_request_def)
  then show ?thesis
    using v a p e f r by blast
qed

subsection \<open>A failed analysis of a sample\<close>

text \<open>
  C9. For a sample in state Created with text to analyze, \<^verbatim>\<open>analyzeTextContent\<close> returns a
  result only when the AI response is successful and the factory accepts it. In every
  other case (an exception of \<^verbatim>\<open>AIService.analyzeText\<close>, an unsuccessful response, an
  exception of the factory) the handler calls \<^verbatim>\<open>setRejected\<close> on the sample in state
  Analyzing: the caller gets "Cannot transition to Rejected from Analyzing" instead of the
  original failure, and the sample stays in state Analyzing.
\<close>

theorem failure_replaced_by_transition_error:
  assumes created: "tc_state tc = Created" and nonempty: "\<not> isEmpty tc"
  shows "(fst (analyzeTextContent env tc prefs s)
            = Inl (Error ''Cannot transition to Rejected from Analyzing'')
          \<and> fst (snd (analyzeTextContent env tc prefs s)) = tc\<lparr>tc_state := Analyzing\<rparr>)
       \<or> (\<exists>r a ci. fst (analyzeTextContent env tc prefs s) = Inr r
             \<and> fst (AIService_analyzeText env (createAnalysisRequest tc prefs) s) = Inr (Success a)
             \<and> fst (createFromAIResponse env (Success a) (tc_originalText tc)
                      (snd (AIService_analyzeText env (createAnalysisRequest tc prefs) s))) = Inr ci)"
proof -
  have rq: "createAnalysisRequest (tc\<lparr>tc_state := Analyzing\<rparr>) prefs = createAnalysisRequest tc prefs"
    by (simp add: createAnalysisRequest_def)
  obtain res s1 where ai: "AIService_analyzeText env (createAnalysisRequest tc prefs) s = (res, s1)"
    by (cases "AIService_analyzeText env (createAnalysisRequest tc prefs) s")
  show ?thesis
  proof (cases res)
    case (Inl e)
    then show ?thesis
      using created nonempty ai rq
      by (simp add: analyzeTextContent_def analyzeTextContent_try_def setAnalyzing_def
            setRejected_def Let_def)
  next
    case (Inr response)
    show ?thesis
    proof (cases response)
      case (Failure code msg)
      then show ?thesis
        using created nonempty ai rq Inr
        by (simp add: analyzeTextContent_def analyzeTextContent_try_def setAnalyzing_def
              setRejected_def Let_def)
    next
      case (Success a)
      obtain made s2 where f: "createFromAIResponse env (Success a) (tc_originalText tc) s1 = (made, s2)"
        by (cases "createFromAIResponse env (Success a) (tc_originalText tc) s1")
      show ?thesis
      proof (cases made)
        case (Inl e)
        then show ?thesis
          using created nonempty ai rq Inr Success f
          by (simp add: analyzeTextContent_def analyzeTextContent_try_def setAnalyzing_def
                setRejected_def Let_def)
      next
        case made: (Inr ci)
        then show ?thesis
          using created nonempty ai rq Inr Success f
          by (simp add: analyzeTextContent_def analyzeTextContent_try_def setAnalyzing_def
                setAnalyzed_def setRejected_def Let_def)
      qed
    qed
  qed
qed

theorem failure_replaced_by_transition_error_witness:
  "tc_state (sample_text Created) = Created \<and> \<not> isEmpty (sample_text Created)
   \<and> fst (AIService_analyzeText no_backend_env
            (createAnalysisRequest (sample_text Created) no_preferences) initial)
       = Inr (Failure ''API_UNAVAILABLE'' ''No AI APIs available for text analysis'')
   \<and> fst (analyzeTextContent no_backend_env (sample_text Created) no_preferences initial)
       = Inl (Error ''Cannot transition to Rejected from Analyzing'')
   \<and> fst (snd (analyzeTextContent no_backend_env (sample_text Created) no_preferences initial))
       = sample_text Analyzing"
proof -
  have c: "tc_state (sample_text Created) = Created"
    by (simp add: sample_text_def)
  have n: "\<not> isEmpty (sample_text Created)"
    by code_simp
  have f: "fst (AIService_analyzeText no_backend_env
            (createAnalysisRequest (sample_text Created) no_preferences) initial)
       = Inr (Failure ''API_UNAVAILABLE'' ''No AI APIs available for text analysis'')"
    by code_simp
  have u: "(sample_text Created)\<lparr>tc_state := Analyzing\<rparr> = sample_text Analyzing"
    by (simp add: sample_text_def)
  show ?thesis
    using c n f u
      failure_replaced_by_transition_error [OF c n, of no_backend_env no_preferences initial]
    by auto
qed

subsection \<open>A backend that returns its input\<close>

lemma calculateConfidenceScore_same: "t \<noteq> [] \<Longrightarrow> calculateConfidenceScore t t = 7 / 10"
  by (simp add: calculateConfidenceScore_def Let_def calculateSimilarity_same)

lemma generateChangeDetails_same: "generateChangeDetails t t = []"
  by (simp add: generateChangeDetails_def)

lemma getOrCreateSession_succeeds:
  assumes "a \<in> {''rewriter'', ''prompt''}" "env_defined env a" "env_create env a p = Inr ()"
    "validateParameters p = Inr ()"
  shows "\<exists>h. fst (getOrCreateSession env a p s) = Inr h"
proof (cases "findSession a p (sessions s)")
  case None
  then show ?thesis
    using assms
    by (auto simp: getOrCreateSession_def createSession_def createSession_branch_def
          validateSessionRequest_def runtime_defs Let_def split_def update_conv')
next
  case (Some found)
  then show ?thesis
    by (cases found) (simp add: getOrCreateSession_found)
qed

lemma createFromAIResponse_same:
  "t \<noteq> [] \<Longrightarrow> a_changes a = [] \<Longrightarrow> a_improvedText a = t \<Longrightarrow>
     createFromAIResponse env (Success a) t s
       = (Inl (Error ''originalPhrase and improvedPhrase must not be identical''), s)"
  by (simp add: createFromAIResponse_def new_ChangeDetail_def ChangeDetail_validate_def
        validChangeTypes_def)

lemma analyzeWithRewriter_echo:
  assumes "env_defined env ''rewriter''" "env_create env ''rewriter'' p = Inr ()"
    "validateParameters p = Inr ()"
    "\<forall>session options. env_rewrite env session t options = Inr t"
  shows "\<exists>pt s'. analyzeWithRewriter env t p s =
           (Some \<lparr>a_improvedText = t, a_confidenceScore = calculateConfidenceScore t t,
                   a_processingTime = pt, a_apiUsed = ''rewriter'',
                   a_changes = generateChangeDetails t t\<rparr>, s')"
proof -
  let ?s2 = "(record_event (Probe ''rewriter'') (record_event (Attempt ''rewriter'') s))
               \<lparr>ticks := Suc (ticks s)\<rparr>"
  obtain h where "fst (getOrCreateSession env ''rewriter'' p ?s2) = Inr h"
    using getOrCreateSession_succeeds [of "''rewriter''" env p ?s2] assms by auto
  then obtain s3 where g: "getOrCreateSession env ''rewriter'' p ?s2 = (Inr h, s3)"
    by (cases "getOrCreateSession env ''rewriter'' p ?s2") simp
  show ?thesis
    using assms(1,4) g
    by (simp add: analyzeWithRewriter_def runtime_defs Let_def)
qed

lemma analyzeWithPrompt_echo:
  assumes "env_defined env ''prompt''" "env_create env ''prompt'' p = Inr ()"
    "validateParameters p = Inr ()"
    "\<forall>session prompt. env_prompt env session prompt = Inr t"
  shows "\<exists>pt s'. analyzeWithPrompt env t p s =
           (Some \<lparr>a_improvedText = t, a_confidenceScore = calculateConfidenceScore t t,
                   a_processingTime = pt, a_apiUsed = ''prompt'',
                   a_changes = generateChangeDetails t t\<rparr>, s')"
proof -
  let ?s2 = "(record_event (Probe ''prompt'') (record_event (Attempt ''prompt'') s))
               \<lparr>ticks := Suc (ticks s)\<rparr>"
  obtain h where "fst (getOrCreateSession env ''prompt'' p ?s2) = Inr h"
    using getOrCreateSession_succeeds [of "''prompt''" env p ?s2] assms by auto
  then obtain s3 where g: "getOrCreateSession env ''prompt'' p ?s2 = (Inr h, s3)"
    by (cases "getOrCreateSession env ''prompt'' p ?s2") simp
  show ?thesis
    using assms(1,4) g
    by (simp add: analyzeWithPrompt_def runtime_defs Let_def)
qed

text \<open>
  C1, as the code has it. For a text of 1 to 5000 characters, valid parameters and a
  primary backend that is available, creates its session and returns the text unchanged,
  \<^verbatim>\<open>AIService.analyzeText\<close> answers with success: the improved text is the original, the
  confidence is 0.7 and the list of changes is empty, so identical text is no error
  there. No whole-span change is synthesized for it: \<^verbatim>\<open>createFromAIResponse\<close> builds one
  with identical phrases, which \<^verbatim>\<open>ChangeDetail\<close> rejects.
\<close>

theorem echo_identical_text:
  assumes valid_text: "rq_text request \<noteq> []" "length (rq_text request) \<le> 5000"
    and api: "rq_apiType request \<in> {''rewriter'', ''prompt''}"
    and params: "validateParameters (requestParameters request) = Inr ()"
    and available: "env_defined env (rq_apiType request)"
    and create: "env_create env (rq_apiType request) (requestParameters request) = Inr ()"
    and echo: "rq_apiType request = ''rewriter'' \<longrightarrow>
        (\<forall>session options. env_rewrite env session (rq_text request) options = Inr (rq_text request))"
      "rq_apiType request = ''prompt'' \<longrightarrow>
        (\<forall>session prompt. env_prompt env session prompt = Inr (rq_text request))"
  shows "\<exists>a. fst (AIService_analyzeText env request s) = Inr (Success a)
           \<and> a_improvedText a = rq_text request
           \<and> a_apiUsed a = rq_apiType request
           \<and> a_confidenceScore a = 7 / 10
           \<and> a_changes a = []
           \<and> fst (createFromAIResponse env (Success a) (rq_text request)
                    (snd (AIService_analyzeText env request s)))
               = Inl (Error ''originalPhrase and improvedPhrase must not be identical'')"
proof -
  let ?t = "rq_text request" and ?p = "requestParameters request"
  have valid: "validateAnalysisRequest request = Inr ()"
    using valid_text api params
    by (auto simp: validateAnalysisRequest_def requestParameters_def split: option.splits)
  have "\<exists>pt s'. analyzeWith env (rq_apiType request) ?t ?p s =
           (Some \<lparr>a_improvedText = ?t, a_confidenceScore = calculateConfidenceScore ?t ?t,
                   a_processingTime = pt, a_apiUsed = rq_apiType request,
                   a_changes = generateChangeDetails ?t ?t\<rparr>, s')"
    using api available create params echo
      analyzeWithRewriter_echo [of env ?p ?t s] analyzeWithPrompt_echo [of env ?p ?t s]
    by (auto simp: analyzeWith_def)
  then obtain pt s' where run: "analyzeWith env (rq_apiType request) ?t ?p s =
           (Some \<lparr>a_improvedText = ?t, a_confidenceScore = 7 / 10,
                   a_processingTime = pt, a_apiUsed = rq_apiType request,
                   a_changes = []\<rparr>, s')"
    using valid_text(1) by (auto simp: calculateConfidenceScore_same generateChangeDetails_same)
  let ?a = "\<lparr>a_improvedText = ?t, a_confidenceScore = 7 / 10,
                   a_processingTime = pt, a_apiUsed = rq_apiType request,
                   a_changes = []\<rparr>"
  have result: "AIService_analyzeText env request s = (Inr (Success ?a), s')"
    using valid api run
    by (auto simp: AIService_analyzeText_def analyzeWith_def requestParameters_def Let_def
          split: if_splits)
  have "fst (createFromAIResponse env (Success ?a) ?t s')
          = Inl (Error ''originalPhrase and improvedPhrase must not be identical'')"
    using createFromAIResponse_same [of ?t ?a env s'] valid_text(1) by simp
  then show ?thesis
    using result by simp
qed

theorem echo_identical_text_witness:
  "rq_text echo_request \<noteq> [] \<and> length (rq_text echo_request) \<le> 5000
   \<and> rq_apiType echo_request \<in> {''rewriter'', ''prompt''}
   \<and> validateParameters (requestParameters echo_request) = Inr ()
   \<and> env_defined echo_env (rq_apiType echo_request)
   \<and> env_create echo_env (rq_apiType echo_request) (requestParameters echo_request) = Inr ()
   \<and> (\<forall>session options.
         env_rewrite echo_env session (rq_text echo_request) options = Inr (rq_text echo_request))
   \<and> (\<exists>a. fst (AIService_analyzeText echo_env echo_request initial) = Inr (Success a)
         \<and> a_improvedText a = ''hello world'' \<and> a_changes a = []
         \<and> fst (createFromAIResponse echo_env (Success a) ''hello world''
                  (snd (AIService_analyzeText echo_env echo_request initial)))
             = Inl (Error ''originalPhrase and improvedPhrase must not be identical''))"
proof -
  have t: "rq_text echo_request \<noteq> []" "length (rq_text echo_request) \<le> 5000"
      "rq_text echo_request = ''hello world''"
    by (simp_all add: echo_request_def)
  have a: "rq_apiType echo_request \<in> {''rewriter'', ''prompt''}"
      "rq_apiType echo_request = ''rewriter''"
    by (simp_all add: echo_request_def)
  have p: "validateParameters (requestParameters echo_request) = Inr ()"
    by code_simp
  have d: "env_defined echo_env (rq_apiType echo_request)"
    by (simp add: echo_env_def echo_request_def)
  have c: "env_create echo_env (rq_apiType echo_request) (requestParameters echo_request) = Inr ()"
    by (simp add: echo_env_def)
  have e: "\<forall>session options.
         env_rewrite echo_env session (rq_text echo_request) options = Inr (rq_text echo_request)"
    by (simp add: echo_env_def)
  have e1: "rq_apiType echo_request = ''rewriter'' \<longrightarrow>
        (\<forall>session options.
           env_rewrite echo_env session (rq_text echo_request) options = Inr (rq_text echo_request))"
    using e by simp
  have e2: "rq_apiType echo_request = ''prompt'' \<longrightarrow>
        (\<forall>session prompt. env_prompt echo_env session prompt = Inr (rq_text echo_request))"
    using a(2) by simp
  show ?thesis
    using t a(1) p d c e echo_identical_text [OF t(1) t(2) a(1) p d c e1 e2, of initial]
    by auto
qed

text \<open>
  The claim as stated fails: with the echoing Rewriter, analyzing "hello world" returns no
  result at all.
\<close>

theorem echo_analysis_counterexample:
  "fst (TextAnalyzer_analyzeText echo_env ''hello world'' default_options initial)
     = Inl (Error ''Cannot transition to Rejected from Analyzing'')"
  by code_simp

subsection \<open>Analysis history\<close>

lemma addToHistory_maxHistorySize: "maxHistorySize (addToHistory env original ci s) = maxHistorySize s"
  by (simp add: addToHistory_def generateHistoryId_def dateNow_def mathRandom_def Let_def split_def)

lemma addToHistory_history:
  "analysisHistory (addToHistory env original ci s) =
     (let e = \<lparr>he_originalText = original, he_clarityImprovement = ci,
                he_timestamp = env_clock env (ticks s),
                he_id = (env_clock env (Suc (ticks s)), env_random env (draws s))\<rparr>
      in if maxHistorySize s < Suc (length (analysisHistory s))
         then take (maxHistorySize s) (e # analysisHistory s) else e # analysisHistory s)"
  by (simp add: addToHistory_def generateHistoryId_def dateNow_def mathRandom_def Let_def split_def)

lemma addToHistory_summary:
  "length (analysisHistory s) \<le> maxHistorySize s \<Longrightarrow>
   map entry_summary (analysisHistory (addToHistory env original ci s)) =
     take (maxHistorySize s) ((original, ci_improvedText ci) # map entry_summary (analysisHistory s))"
  by (simp add: addToHistory_history Let_def entry_summary_def flip: take_map)

text \<open>Nothing in AIService or in the factory touches the history.\<close>

lemma createSession_history:
  "analysisHistory (snd (createSession env rq s)) = analysisHistory s
   \<and> maxHistorySize (snd (createSession env rq s)) = maxHistorySize s"
  by (auto simp: createSession_def createSession_branch_def createSession_catch_def runtime_defs
        Let_def split_def split: sum.splits if_splits)

lemma getOrCreateSession_history:
  "analysisHistory (snd (getOrCreateSession env a p s)) = analysisHistory s
   \<and> maxHistorySize (snd (getOrCreateSession env a p s)) = maxHistorySize s"
proof (cases "findSession a p (sessions s)")
  case None
  obtain r s1 where c: "createSession env \<lparr>sr_apiType = a, sr_defaultParameters = Some p\<rparr> s = (r, s1)"
    by (cases "createSession env \<lparr>sr_apiType = a, sr_defaultParameters = Some p\<rparr> s")
  have "snd (getOrCreateSession env a p s) = s1"
    using None c
    by (auto simp: getOrCreateSession_def split: sum.splits session_response.splits option.splits)
  then show ?thesis
    using createSession_history [of env "\<lparr>sr_apiType = a, sr_defaultParameters = Some p\<rparr>" s] c
    by simp
next
  case (Some found)
  then show ?thesis
    by (cases found) (simp add: getOrCreateSession_found)
qed

lemma analyzeWithRewriter_history:
  "analysisHistory (snd (analyzeWithRewriter env t p s)) = analysisHistory s
   \<and> maxHistorySize (snd (analyzeWithRewriter env t p s)) = maxHistorySize s"
proof -
  let ?s2 = "(record_event (Probe ''rewriter'') (record_event (Attempt ''rewriter'') s))
               \<lparr>ticks := Suc (ticks s)\<rparr>"
  have base: "analysisHistory ?s2 = analysisHistory s \<and> maxHistorySize ?s2 = maxHistorySize s"
    by (simp add: record_event_def)
  show ?thesis
    using getOrCreateSession_history [of env "''rewriter''" p ?s2] base
    by (auto simp: analyzeWithRewriter_def runtime_defs Let_def split_def
          split: sum.splits prod.splits)
qed

lemma analyzeWithPrompt_history:
  "analysisHistory (snd (analyzeWithPrompt env t p s)) = analysisHistory s
   \<and> maxHistorySize (snd (analyzeWithPrompt env t p s)) = maxHistorySize s"
proof -
  let ?s2 = "(record_event (Probe ''prompt'') (record_event (Attempt ''prompt'') s))
               \<lparr>ticks := Suc (ticks s)\<rparr>"
  have base: "analysisHistory ?s2 = analysisHistory s \<and> maxHistorySize ?s2 = maxHistorySize s"
    by (simp add: record_event_def)
  show ?thesis
    using getOrCreateSession_history [of env "''prompt''" p ?s2] base
    by (auto simp: analyzeWithPrompt_def runtime_defs Let_def split_def
          split: sum.splits prod.splits)
qed

lemma AIService_analyzeText_history:
  "analysisHistory (snd (AIService_analyzeText env rq s)) = analysisHistory s
   \<and> maxHistorySize (snd (AIService_analyzeText env rq s)) = maxHistorySize s"
proof -
  let ?t = "rq_text rq" and ?p = "requestParameters rq"
  note rw = analyzeWithRewriter_history and pr = analyzeWithPrompt_history
  show ?thesis
    using rw [of env ?t ?p s] pr [of env ?t ?p s]
      rw [of env ?t ?p "snd (analyzeWithPrompt env ?t ?p s)"]
      pr [of env ?t ?p "snd (analyzeWithRewriter env ?t ?p s)"]
    by (auto simp: AIService_analyzeText_def analyzeText_catch_def requestParameters_def Let_def
          split: sum.splits prod.splits option.splits if_splits)
qed

lemma createFromAIResponse_history:
  "analysisHistory (snd (createFromAIResponse env resp t s)) = analysisHistory s
   \<and> maxHistorySize (snd (createFromAIResponse env resp t s)) = maxHistorySize s"
  by (auto simp: createFromAIResponse_def new_ClarityImprovement_def dateNow_def Let_def
        split: ai_response.splits sum.splits)

lemma createFromAIResponse_improvedText:
  "createFromAIResponse env (Success a) t s = (Inr ci, s') \<Longrightarrow> ci_improvedText ci = a_improvedText a"
  by (auto simp: createFromAIResponse_def new_ClarityImprovement_def dateNow_def Let_def
        split: sum.splits if_splits)

text \<open>A failed analysis leaves the history as it was; a successful one records its entry.\<close>

lemma analyzeTextContent_history:
  assumes run: "analyzeTextContent env tc prefs s = (res, tc', s')"
    and fits: "length (analysisHistory s) \<le> maxHistorySize s"
  shows "maxHistorySize s' = maxHistorySize s
     \<and> (case res of
           Inl e \<Rightarrow> analysisHistory s' = analysisHistory s
         | Inr r \<Rightarrow> map entry_summary (analysisHistory s') =
                     take (maxHistorySize s)
                       ((ar_originalText r, ar_improvedText r) # map entry_summary (analysisHistory s)))"
proof -
  let ?rq = "createAnalysisRequest (tc\<lparr>tc_state := Analyzing\<rparr>) prefs"
  obtain ai s1 where ai: "AIService_analyzeText env ?rq s = (ai, s1)"
    by (cases "AIService_analyzeText env ?rq s")
  have h1: "analysisHistory s1 = analysisHistory s" "maxHistorySize s1 = maxHistorySize s"
    using AIService_analyzeText_history [of env ?rq s] ai by simp_all
  have mk: "analysisHistory (snd (createFromAIResponse env resp t s1)) = analysisHistory s"
      "maxHistorySize (snd (createFromAIResponse env resp t s1)) = maxHistorySize s" for resp t
    using createFromAIResponse_history [of env resp t s1] h1 by simp_all
  show ?thesis
  proof (cases "isEmpty tc \<or> tc_state tc \<noteq> Created")
    case True
    then show ?thesis
      using run
      by (auto simp: analyzeTextContent_def analyzeTextContent_try_def setAnalyzing_def
            setRejected_def split: if_splits)
  next
    case False
    show ?thesis
    proof (cases ai)
      case (Inl e)
      then show ?thesis
        using False run ai h1
        by (auto simp: analyzeTextContent_def analyzeTextContent_try_def setAnalyzing_def
              setRejected_def Let_def)
    next
      case (Inr response)
      show ?thesis
      proof (cases response)
        case (Failure code msg)
        then show ?thesis
          using False run ai h1 Inr
          by (auto simp: analyzeTextContent_def analyzeTextContent_try_def setAnalyzing_def
                setRejected_def Let_def)
      next
        case (Success a)
        obtain made s2 where f: "createFromAIResponse env (Success a) (tc_originalText tc) s1 = (made, s2)"
          by (cases "createFromAIResponse env (Success a) (tc_originalText tc) s1")
        have h2: "analysisHistory s2 = analysisHistory s" "maxHistorySize s2 = maxHistorySize s"
          using mk [of "Success a" "tc_originalText tc"] f by simp_all
        show ?thesis
        proof (cases made)
          case (Inl e)
          then show ?thesis
            using False run ai Inr Success f h2
            by (auto simp: analyzeTextContent_def analyzeTextContent_try_def setAnalyzing_def
                  setRejected_def Let_def)
        next
          case made: (Inr ci)
          have fits2: "length (analysisHistory s2) \<le> maxHistorySize s2"
            using fits h2 by simp
          have "ci_improvedText ci = a_improvedText a"
            using createFromAIResponse_improvedText f made by simp
          then show ?thesis
            using False run ai Inr Success f made h2
              addToHistory_summary [OF fits2, of env "tc_originalText tc" ci]
            by (auto simp: analyzeTextContent_def analyzeTextContent_try_def setAnalyzing_def
                  setAnalyzed_def setRejected_def Let_def addToHistory_maxHistorySize)
        qed
      qed
    qed
  qed
qed

lemma run_analyses_history:
  "maxHistorySize s = 10 \<Longrightarrow> length (analysisHistory s) \<le> 10 \<Longrightarrow>
   run_analyses env jobs s = (completed, s') \<Longrightarrow>
     map entry_summary (analysisHistory s')
       = take 10 (rev completed @ map entry_summary (analysisHistory s))"
proof (induction jobs arbitrary: s completed s')
  case Nil
  then show ?case by simp
next
  case (Cons job jobs)
  obtain tc prefs where job: "job = (tc, prefs)" by (cases job)
  obtain res tc1 s1 where step: "analyzeTextContent env tc prefs s = (res, tc1, s1)"
    by (cases "analyzeTextContent env tc prefs s") auto
  have fits: "length (analysisHistory s) \<le> maxHistorySize s"
    using Cons.prems by simp
  note h = analyzeTextContent_history [OF step fits]
  have m1: "maxHistorySize s1 = 10" using h Cons.prems by simp
  obtain later s2 where rest: "run_analyses env jobs s1 = (later, s2)"
    by (cases "run_analyses env jobs s1")
  show ?case
  proof (cases res)
    case (Inl e)
    have same: "analysisHistory s1 = analysisHistory s" using h Inl by simp
    have l: "length (analysisHistory s1) \<le> 10"
      using same Cons.prems(2) by simp
    have r: "run_analyses env jobs s1 = (completed, s')"
      using Cons.prems(3) job step Inl by simp
    show ?thesis
      using Cons.IH [OF m1 l r] same by simp
  next
    case (Inr r)
    have p: "map entry_summary (analysisHistory s1) =
        take 10 ((ar_originalText r, ar_improvedText r) # map entry_summary (analysisHistory s))"
      using h Inr Cons.prems(1) by simp
    have l1: "length (analysisHistory s1) \<le> 10"
      using arg_cong [OF p, of length] by simp
    have c: "completed = (ar_originalText r, ar_improvedText r) # later" and s2: "s' = s2"
      using Cons.prems(3) job step Inr rest by simp_all
    have "map entry_summary (analysisHistory s2) =
        take 10 (rev later @ take 10 ((ar_originalText r, ar_improvedText r)
                                # map entry_summary (analysisHistory s)))"
      using Cons.IH [OF m1 l1 rest] p by simp
    also have "\<dots> = take 10 (rev later @ (ar_originalText r, ar_improvedText r)
                                # map entry_summary (analysisHistory s))"
      by (simp add: take_Cons' min_def split: nat.splits)
    finally show ?thesis using c s2 by simp
  qed
qed

text \<open>
  C6. Starting from the empty history with capacity 10, after a sequence of analyses of
  which n succeeded the history holds the last min(n, 10) successful ones, newest first:
  it is the first ten of the successful analyses in reverse order, so the most recent is
  at index 0 and the oldest n - 10 are gone. Failed analyses leave no entry.
\<close>

theorem history_bounded_newest_first:
  "analysisHistory s = [] \<Longrightarrow> maxHistorySize s = 10 \<Longrightarrow>
     map entry_summary (analysisHistory (snd (run_analyses env jobs s)))
       = take 10 (rev (fst (run_analyses env jobs s)))
     \<and> length (analysisHistory (snd (run_analyses env jobs s)))
       = min (length (fst (run_analyses env jobs s))) 10"
proof -
  assume h: "analysisHistory s = []" and m: "maxHistorySize s = 10"
  have l: "length (analysisHistory s) \<le> 10"
    using h by simp
  have r: "run_analyses env jobs s = (fst (run_analyses env jobs s), snd (run_analyses env jobs s))"
    by simp
  have p: "map entry_summary (analysisHistory (snd (run_analyses env jobs s)))
             = take 10 (rev (fst (run_analyses env jobs s)))"
    using run_analyses_history [OF m l r] h by simp
  have "length (analysisHistory (snd (run_analyses env jobs s)))
          = length (take 10 (rev (fst (run_analyses env jobs s))))"
    using arg_cong [OF p, of length] by simp
  then show ?thesis using p by simp
qed

theorem history_bounded_newest_first_witness:
  "analysisHistory initial = [] \<and> maxHistorySize initial = 10
   \<and> fst (run_analyses improving_env
            (map numbered_job [1, 2, 3, 4, 5, 6, 7, 8, 9, 10, 11, 12, 13, 14, 15]) initial)
       = map numbered_outcome [1, 2, 3, 4, 5, 6, 7, 8, 9, 10, 11, 12, 13, 14, 15]
   \<and> map entry_summary (analysisHistory (snd (run_analyses improving_env
            (map numbered_job [1, 2, 3, 4, 5, 6, 7, 8, 9, 10, 11, 12, 13, 14, 15]) initial)))
       = map numbered_outcome [15, 14, 13, 12, 11, 10, 9, 8, 7, 6]
   \<and> length (analysisHistory (snd (run_analyses improving_env
            (map numbered_job [1, 2, 3, 4, 5, 6, 7, 8, 9, 10, 11, 12, 13, 14, 15]) initial)))
       = 10"
proof -
  have h: "analysisHistory initial = []" and m: "maxHistorySize initial = 10"
    by (simp_all add: initial_def)
  have f: "fst (run_analyses improving_env
            (map numbered_job [1, 2, 3, 4, 5, 6, 7, 8, 9, 10, 11, 12, 13, 14, 15]) initial)
       = map numbered_outcome [1, 2, 3, 4, 5, 6, 7, 8, 9, 10, 11, 12, 13, 14, 15]"
    by code_simp
  show ?thesis
    using h m f
      history_bounded_newest_first [OF h m, of improving_env
        "map numbered_job [1, 2, 3, 4, 5, 6, 7, 8, 9, 10, 11, 12, 13, 14, 15]"]
    by simp
qed

end
